theory Spec2Isabelle
  imports Complex_Main "HOL-Library.Sublist"
begin

section \<open>Rate limiting: backend/src/middleware/rateLimit.ts\<close>

subsection \<open>The plan table and its lookup\<close>

text \<open>
  \<^verbatim>\<open>const RATE_LIMITS: Record<string, { requests: number; windowMs: number }>\<close> is an
  object literal with five own properties. Times and counts are integers (milliseconds
  since the epoch, request counts).
\<close>

record rate_config =
  requests :: int
  windowMs :: int

definition RATE_LIMITS :: "(string \<times> rate_config) list" where
  "RATE_LIMITS =
     [(''free'', \<lparr>requests = 100, windowMs = 3600000\<rparr>),
      (''starter'', \<lparr>requests = 1000, windowMs = 3600000\<rparr>),
      (''pro'', \<lparr>requests = 10000, windowMs = 3600000\<rparr>),
      (''scale'', \<lparr>requests = 50000, windowMs = 3600000\<rparr>),
      (''enterprise'', \<lparr>requests = 200000, windowMs = 3600000\<rparr>)]"

text \<open>
  Reading \<^verbatim>\<open>obj[k]\<close> on an object literal finds an own property first, then a
  property inherited from \<^verbatim>\<open>Object.prototype\<close> (a function or an object, hence truthy,
  with no \<^verbatim>\<open>requests\<close> or \<^verbatim>\<open>windowMs\<close> field of its own), and is \<^verbatim>\<open>undefined\<close>
  otherwise.
\<close>

datatype 'a js_value = Own 'a | Inherited | Undefined

definition object_prototype_names :: "string list" where
  "object_prototype_names =
     [''constructor'', ''__proto__'', ''hasOwnProperty'', ''isPrototypeOf'',
      ''propertyIsEnumerable'', ''toLocaleString'', ''toString'', ''valueOf'',
      ''__defineGetter__'', ''__defineSetter__'', ''__lookupGetter__'',
      ''__lookupSetter__'']"

definition js_get :: "(string \<times> 'a) list \<Rightarrow> string \<Rightarrow> 'a js_value" where
  "js_get obj k =
     (case map_of obj k of
        Some v \<Rightarrow> Own v
      | None \<Rightarrow> if k \<in> set object_prototype_names then Inherited else Undefined)"

text \<open>\<^verbatim>\<open>RATE_LIMITS[plan] || RATE_LIMITS.free\<close>: only \<^verbatim>\<open>undefined\<close> is falsy here.\<close>

definition limits_for :: "string \<Rightarrow> rate_config js_value" where
  "limits_for plan =
     (case js_get RATE_LIMITS plan of
        Undefined \<Rightarrow> js_get RATE_LIMITS ''free''
      | v \<Rightarrow> v)"

subsection \<open>The counter store\<close>

text \<open>
  The key \<^verbatim>\<open>`rate_limit:${userId}:${windowStart}`\<close> is kept as its two interpolated
  parts; \<open>windowStart\<close> is a JavaScript number, which is \<^verbatim>\<open>NaN\<close> when the window size
  is \<^verbatim>\<open>undefined\<close>.
\<close>

datatype js_num = Num int | NaN

datatype redis_key = RateLimitKey string js_num

text \<open>
  A stored counter with its expiry time (milliseconds), if one was set. The client is
  \<open>None\<close> when \<^verbatim>\<open>this.client\<close> is null: every operation of the wrapper then throws
  \<^verbatim>\<open>'Redis not connected'\<close>.
\<close>

record entry =
  count :: int
  expireAt :: "int option"

type_synonym store = "redis_key \<Rightarrow> entry option"

definition live :: "int \<Rightarrow> entry \<Rightarrow> bool" where
  "live now e = (case expireAt e of None \<Rightarrow> True | Some t \<Rightarrow> now < t)"

definition redis_get :: "store \<Rightarrow> int \<Rightarrow> redis_key \<Rightarrow> int option" where
  "redis_get s now k =
     (case s k of
        None \<Rightarrow> None
      | Some e \<Rightarrow> if live now e then Some (count e) else None)"

definition redis_incr :: "store \<Rightarrow> int \<Rightarrow> redis_key \<Rightarrow> store" where
  "redis_incr s now k =
     (case s k of
        None \<Rightarrow> s(k \<mapsto> \<lparr>count = 1, expireAt = None\<rparr>)
      | Some e \<Rightarrow>
          if live now e then s(k \<mapsto> e\<lparr>count := count e + 1\<rparr>)
          else s(k \<mapsto> \<lparr>count = 1, expireAt = None\<rparr>))"

definition redis_expire :: "store \<Rightarrow> int \<Rightarrow> redis_key \<Rightarrow> int \<Rightarrow> store" where
  "redis_expire s now k seconds =
     (case s k of
        None \<Rightarrow> s
      | Some e \<Rightarrow> s(k \<mapsto> e\<lparr>expireAt := Some (now + seconds * 1000)\<rparr>))"

text \<open>\<^verbatim>\<open>Math.ceil(a / b)\<close> on integers, \<open>b\<close> positive.\<close>

definition ceil_div :: "int \<Rightarrow> int \<Rightarrow> int" where
  "ceil_div a b = - ((- a) div b)"

subsection \<open>The middleware\<close>

record user =
  uid :: string
  plan :: string

record request =
  req_user :: "user option"
  req_apiKey :: "string option"

record rateLimitInfo =
  limit :: int
  remaining :: int
  resetTime :: int

text \<open>
  What the middleware does with the request: answer 401, answer 429 (the body carries
  \<open>limit\<close> and \<open>resetTime\<close>, the meta block the whole \<open>rateLimitInfo\<close>), or call
  \<^verbatim>\<open>next()\<close>: with the rate-limit headers set from the info, or from the
  \<^verbatim>\<open>catch\<close> block with nothing set. The usage log written when the response
  finishes goes to the database and to the key \<^verbatim>\<open>usage:recent:<user>\<close>; it reads and
  writes no rate-limit counter and is left out.
\<close>

datatype rl_outcome =
    AuthenticationRequired
  | RateLimitExceeded rateLimitInfo
  | Next "rateLimitInfo option"

fun status_code :: "rl_outcome \<Rightarrow> nat option" where
  "status_code AuthenticationRequired = Some 401"
| "status_code (RateLimitExceeded _) = Some 429"
| "status_code (Next _) = None"

fun allowed :: "rl_outcome \<Rightarrow> bool" where
  "allowed (Next _) = True"
| "allowed _ = False"

definition window_start :: "int \<Rightarrow> rate_config \<Rightarrow> int" where
  "window_start now limits = (now div windowMs limits) * windowMs limits"

definition request_count :: "store \<Rightarrow> int \<Rightarrow> redis_key \<Rightarrow> int" where
  "request_count s now key = (case redis_get s now key of None \<Rightarrow> 0 | Some c \<Rightarrow> c)"

definition rateLimitMiddleware ::
  "store option \<Rightarrow> int \<Rightarrow> request \<Rightarrow> rl_outcome \<times> store option" where
  "rateLimitMiddleware redis now req =
     (case (req_user req, req_apiKey req) of
        (Some u, Some _) \<Rightarrow>
          (case limits_for (plan u) of
             Undefined \<Rightarrow> (Next None, redis)
           | Inherited \<Rightarrow>
               (case redis of
                  None \<Rightarrow> (Next None, redis)
                | Some s \<Rightarrow> (Next None, Some (redis_incr s now (RateLimitKey (uid u) NaN))))
           | Own limits \<Rightarrow>
               (case redis of
                  None \<Rightarrow> (Next None, redis)
                | Some s \<Rightarrow>
                    let windowStart = window_start now limits;
                        key = RateLimitKey (uid u) (Num windowStart);
                        requestCount = request_count s now key;
                        resetTime = windowStart + windowMs limits;
                        info = \<lparr>limit = requests limits,
                                remaining = max 0 (requests limits - requestCount - 1),
                                resetTime = resetTime\<rparr>
                    in if requestCount \<ge> requests limits
                       then (RateLimitExceeded info, Some s)
                       else
                         let s1 = redis_incr s now key;
                             s2 = (if requestCount = 0
                                   then redis_expire s1 now key (ceil_div (windowMs limits) 1000)
                                   else s1)
                         in (Next (Some info), Some s2)))
      | _ \<Rightarrow> (AuthenticationRequired, redis))"

text \<open>
  \<^verbatim>\<open>getRateLimitStatus\<close> has no \<^verbatim>\<open>try\<close>: an exception leaves the function. With an
  inherited member for \<open>limits\<close> the returned object has \<^verbatim>\<open>limit: undefined\<close>,
  \<^verbatim>\<open>remaining: NaN\<close> and an invalid date.
\<close>

datatype status_result = Status rateLimitInfo | StatusUndefinedLimit | StatusThrows

definition getRateLimitStatus :: "store option \<Rightarrow> int \<Rightarrow> string \<Rightarrow> string \<Rightarrow> status_result" where
  "getRateLimitStatus redis now userId plan' =
     (case limits_for plan' of
        Undefined \<Rightarrow> StatusThrows
      | Inherited \<Rightarrow> (case redis of None \<Rightarrow> StatusThrows | Some s \<Rightarrow> StatusUndefinedLimit)
      | Own limits \<Rightarrow>
          (case redis of
             None \<Rightarrow> StatusThrows
           | Some s \<Rightarrow>
               let windowStart = window_start now limits;
                   key = RateLimitKey userId (Num windowStart);
                   requestCount = request_count s now key
               in Status \<lparr>limit = requests limits,
                          remaining = max 0 (requests limits - requestCount),
                          resetTime = windowStart + windowMs limits\<rparr>))"

text \<open>A sequence of checks of one request identity at the given times, in order.\<close>

fun run_checks :: "store option \<Rightarrow> request \<Rightarrow> int list \<Rightarrow> rl_outcome list \<times> store option" where
  "run_checks redis req [] = ([], redis)"
| "run_checks redis req (t # ts) =
     (case rateLimitMiddleware redis t req of
        (out, redis1) \<Rightarrow>
          (case run_checks redis1 req ts of
             (outs, redis2) \<Rightarrow> (out # outs, redis2)))"

text \<open>
  The state of one window counter as the middleware leaves it: absent before the first
  allowed request of the window, and afterwards holding the count with an expiry that
  is not before the end of the window.
\<close>

definition counter_state :: "store \<Rightarrow> redis_key \<Rightarrow> int \<Rightarrow> int \<Rightarrow> bool" where
  "counter_state s key c wend =
     (if c = 0 then s key = None
      else \<exists>e. s key = Some \<lparr>count = c, expireAt = Some e\<rparr> \<and> wend \<le> e)"

definition starter_req :: request where
  "starter_req =
     \<lparr>req_user = Some \<lparr>uid = ''S'', plan = ''starter''\<rparr>, req_apiKey = Some ''key-1''\<rparr>"

definition free_req :: request where
  "free_req =
     \<lparr>req_user = Some \<lparr>uid = ''S'', plan = ''free''\<rparr>, req_apiKey = Some ''key-1''\<rparr>"

definition proto_req :: request where
  "proto_req =
     \<lparr>req_user = Some \<lparr>uid = ''S'', plan = ''constructor''\<rparr>, req_apiKey = Some ''key-1''\<rparr>"

text \<open>A store in which subject \<open>S\<close> has used up the free plan's quota of the first window.\<close>

definition full_store :: store where
  "full_store = [RateLimitKey ''S'' (Num 0) \<mapsto> \<lparr>count = 100, expireAt = Some 3600000\<rparr>]"

section \<open>Authentication: backend/src/middleware/auth.ts\<close>

text \<open>
  The gate reads the \<^verbatim>\<open>X-API-Key\<close> header (\<open>None\<close> when the header is absent),
  hashes it and looks the hash up in the cache and then in the database. The digest is a
  parameter (\<^verbatim>\<open>crypto.createHash('sha256')\<close>); \<open>cache\<close> is \<open>None\<close> when the Redis
  client is not connected, and \<open>db_query\<close> answers \<open>None\<close> when the query throws. A
  row \<open>'d\<close> is what the join of \<^verbatim>\<open>api_keys\<close> and \<^verbatim>\<open>users\<close> returns; the gate copies
  its fields to \<^verbatim>\<open>req.apiKey\<close> and \<^verbatim>\<open>req.user\<close>. The lookups and writes performed are
  returned as a trace, in order.
\<close>

record 'd auth_env =
  sha256 :: "string \<Rightarrow> string"
  cache :: "(string \<Rightarrow> 'd option) option"
  db_query :: "string \<Rightarrow> 'd list option"

datatype auth_code = MISSING_API_KEY | INVALID_API_KEY_FORMAT | INVALID_API_KEY | AUTH_ERROR

datatype 'd auth_effect =
    CacheGet string
  | DbSelect string
  | CacheSet string 'd
  | DbUpdateLastUsed 'd

datatype 'd auth_outcome = Rejected nat auth_code | Authenticated 'd

definition authMiddleware ::
  "'d auth_env \<Rightarrow> string option \<Rightarrow> 'd auth_outcome \<times> 'd auth_effect list" where
  "authMiddleware env header =
     (case header of
        None \<Rightarrow> (Rejected 401 MISSING_API_KEY, [])
      | Some apiKeyHeader \<Rightarrow>
          if apiKeyHeader = [] then (Rejected 401 MISSING_API_KEY, [])
          else if \<not> prefix ''mf_'' apiKeyHeader then (Rejected 401 INVALID_API_KEY_FORMAT, [])
          else
            let keyHash = sha256 env apiKeyHeader;
                cacheKey = ''apikey:'' @ keyHash
            in (case cache env of
                  None \<Rightarrow> (Rejected 500 AUTH_ERROR, [CacheGet cacheKey])
                | Some c \<Rightarrow>
                    (case c cacheKey of
                       Some d \<Rightarrow> (Authenticated d, [CacheGet cacheKey, DbUpdateLastUsed d])
                     | None \<Rightarrow>
                         (case db_query env keyHash of
                            None \<Rightarrow> (Rejected 500 AUTH_ERROR, [CacheGet cacheKey, DbSelect keyHash])
                          | Some [] \<Rightarrow>
                              (Rejected 401 INVALID_API_KEY, [CacheGet cacheKey, DbSelect keyHash])
                          | Some (d # _) \<Rightarrow>
                              (Authenticated d,
                               [CacheGet cacheKey, DbSelect keyHash, CacheSet cacheKey d,
                                DbUpdateLastUsed d])))))"

text \<open>
  The key format of the specification: the prefix \<^verbatim>\<open>mf_\<close> followed by exactly 64
  lowercase hexadecimal characters.
\<close>

definition spec_key_format :: "string \<Rightarrow> bool" where
  "spec_key_format k =
     (prefix ''mf_'' k \<and> length k = 67 \<and> list_all (\<lambda>c. c \<in> set ''0123456789abcdef'') (drop 3 k))"

text \<open>
  An environment with nothing cached and no key in the database. Its digest is a
  stand-in: no outcome below depends on the digest function.
\<close>

definition empty_env :: "unit auth_env" where
  "empty_env = \<lparr>sha256 = (\<lambda>k. ''digest''), cache = Some (\<lambda>k. None), db_query = (\<lambda>h. Some [])\<rparr>"

section \<open>The request pipeline: the music controller and its services\<close>

subsection \<open>Data\<close>

text \<open>
  JavaScript numbers are modelled as reals (scores, BPM values) or integers (counts,
  \<open>maxTracks\<close>). A promise that rejects, or a call that throws, is \<open>None\<close>. Identifiers
  drawn at random and timestamps (\<^verbatim>\<open>uuidv4()\<close>, \<^verbatim>\<open>new Date()\<close>, step durations) are
  left out of the records.
\<close>

datatype intent = Search | Analyze | Discover

record range =
  range_min :: "real option"
  range_max :: "real option"

record filters =
  f_bpm :: "range option"
  f_key :: "string list option"
  f_genre :: "string list option"
  f_mood :: "string list option"
  f_energy :: "range option"
  f_duration :: "range option"

definition no_filters :: filters where
  "no_filters = \<lparr>f_bpm = None, f_key = None, f_genre = None, f_mood = None,
                  f_energy = None, f_duration = None\<rparr>"

record ProcessedQuery =
  intent :: intent
  searchTerms :: "string list"
  filters :: "filters option"
  maxResults :: int
  sortBy :: string

text \<open>The JSON object the language model answers with, before validation.\<close>

record llm_json =
  j_intent :: "intent option"
  j_searchTerms :: "string list option"
  j_filters :: "filters option"
  j_maxResults :: "int option"
  j_sortBy :: "string option"

text \<open>Of a search result, the fields the controller reads.\<close>

record YouTubeSearchResult =
  yt_id :: string
  yt_title :: string
  yt_description :: string
  yt_thumbnailUrl :: string

record video_metadata =
  vm_title :: string
  vm_artist :: string
  vm_duration :: int

record llm_metadata =
  lm_genre :: "string option"
  lm_mood :: "string option"
  lm_bpm :: "real option"
  lm_key :: "string option"

record AudioAnalysisResult =
  a_bpm :: "real option"
  a_musicalKey :: "string option"
  a_camelotKey :: "string option"
  a_energyLevel :: "real option"
  a_loudness :: "real option"
  a_tempoConfidence :: "real option"
  a_keyConfidence :: "real option"
  a_waveformPeaks :: "real list option"
  a_genre :: "string option"
  a_mood :: "string option"

datatype analysis_status = Pending | Processing | Completed | Failed

record Track =
  youtubeId :: string
  title :: string
  artist :: "string option"
  durationSeconds :: "int option"
  thumbnailUrl :: string
  youtubeUrl :: string
  audioUrl :: "string option"
  bpm :: "real option"
  musicalKey :: "string option"
  camelotKey :: "string option"
  energyLevel :: "real option"
  loudness :: "real option"
  tempoConfidence :: "real option"
  keyConfidence :: "real option"
  waveformPeaks :: "real list option"
  genre :: "string option"
  mood :: "string option"
  analysisStatus :: analysis_status

datatype step_status = StepCompleted | StepFailed

record ProcessingStep =
  step :: string
  status :: step_status

record MusicRequestResult =
  tracks :: "Track list"
  totalFound :: nat
  processingSteps :: "ProcessingStep list"
  confidence :: real

datatype quality = Standard | High

record ProcessMusicRequest =
  body_request :: "string option"
  body_maxTracks :: "int option"
  body_analyzeAudio :: "bool option"
  body_downloadQuality :: "quality option"

datatype response = InvalidRequest | Success MusicRequestResult | ProcessingError

fun http_status :: "response \<Rightarrow> nat" where
  "http_status InvalidRequest = 400"
| "http_status (Success _) = 200"
| "http_status ProcessingError = 500"

subsection \<open>The collaborators\<close>

text \<open>
  What lies outside the repository is a parameter: the Redis connection and the values
  cached when the request arrives, the chat completions of the language model (parsed; \<open>None\<close> when the call
  throws, answers nothing or answers no JSON), the video search of the platform (with
  the details merged in), the metadata of a video, the download URL and the audio
  analysis.
\<close>

record env =
  redis_up :: bool
  llm_query_cache :: "string \<Rightarrow> ProcessedQuery option"
  llm_completion :: "string \<Rightarrow> llm_json option"
  llm_metadata_cache :: "string \<Rightarrow> llm_metadata option"
  llm_metadata_completion :: "string \<Rightarrow> string \<Rightarrow> llm_metadata option"
  yt_search_cache :: "string \<Rightarrow> int \<Rightarrow> YouTubeSearchResult list option"
  yt_search_api :: "string \<Rightarrow> int \<Rightarrow> YouTubeSearchResult list option"
  getVideoMetadata :: "string \<Rightarrow> video_metadata option"
  getDownloadUrl :: "string \<Rightarrow> quality \<Rightarrow> string option"
  analyzeFromUrl :: "string \<Rightarrow> AudioAnalysisResult option"

text \<open>Truthiness of an optional string and of an optional number.\<close>

definition truthy_s :: "string option \<Rightarrow> bool" where
  "truthy_s v = (case v of None \<Rightarrow> False | Some x \<Rightarrow> x \<noteq> [])"

definition truthy_n :: "real option \<Rightarrow> bool" where
  "truthy_n v = (case v of None \<Rightarrow> False | Some x \<Rightarrow> x \<noteq> 0)"

subsection \<open>\<^verbatim>\<open>LLMService.processRequest\<close> and \<^verbatim>\<open>extractMetadata\<close>\<close>

definition fallbackQuery :: "string \<Rightarrow> ProcessedQuery" where
  "fallbackQuery userInput =
     \<lparr>intent = Search, searchTerms = [userInput], filters = Some no_filters,
      maxResults = 10, sortBy = ''relevance''\<rparr>"

text \<open>
  The cache is read before the \<^verbatim>\<open>try\<close>: with Redis down the call throws. Everything
  after it is inside the \<^verbatim>\<open>try\<close>, whose \<^verbatim>\<open>catch\<close> returns the fallback query.
\<close>

definition processRequest :: "env \<Rightarrow> string \<Rightarrow> ProcessedQuery option" where
  "processRequest env userInput =
     (if \<not> redis_up env then None
      else
        case llm_query_cache env userInput of
          Some cached \<Rightarrow> Some cached
        | None \<Rightarrow>
            (case llm_completion env userInput of
               None \<Rightarrow> Some (fallbackQuery userInput)
             | Some j \<Rightarrow>
                 (case (j_intent j, j_searchTerms j) of
                    (Some i, Some ts) \<Rightarrow>
                      Some \<lparr>intent = i, searchTerms = ts, filters = j_filters j,
                            maxResults = (case j_maxResults j of
                                            None \<Rightarrow> 10
                                          | Some m \<Rightarrow> if m = 0 then 10 else m),
                            sortBy = (case j_sortBy j of
                                        None \<Rightarrow> ''relevance''
                                      | Some b \<Rightarrow> if b = [] then ''relevance'' else b)\<rparr>
                  | _ \<Rightarrow> Some (fallbackQuery userInput))))"

definition no_metadata :: llm_metadata where
  "no_metadata = \<lparr>lm_genre = None, lm_mood = None, lm_bpm = None, lm_key = None\<rparr>"

text \<open>
  The metadata cache is keyed by the title alone and is written after every completion
  that parses, so within one request a later result with the same title is served the
  metadata extracted for the earlier one. The cache is therefore passed along and
  returned; it starts as \<open>llm_metadata_cache env\<close>.
\<close>

type_synonym metadata_cache = "string \<Rightarrow> llm_metadata option"

definition extractMetadata ::
  "env \<Rightarrow> metadata_cache \<Rightarrow> string \<Rightarrow> string \<Rightarrow> (llm_metadata \<times> metadata_cache) option" where
  "extractMetadata env cache' title' description =
     (if \<not> redis_up env then None
      else
        case cache' title' of
          Some cached \<Rightarrow> Some (cached, cache')
        | None \<Rightarrow>
            (case llm_metadata_completion env title' description of
               None \<Rightarrow> Some (no_metadata, cache')
             | Some metadata \<Rightarrow> Some (metadata, cache'(title' \<mapsto> metadata))))"

subsection \<open>\<^verbatim>\<open>YouTubeService.searchMusic\<close>\<close>

definition searchMusic :: "env \<Rightarrow> string \<Rightarrow> int \<Rightarrow> YouTubeSearchResult list option" where
  "searchMusic env query maxResults' =
     (if \<not> redis_up env then None
      else
        case yt_search_cache env query maxResults' of
          Some cached \<Rightarrow> Some cached
        | None \<Rightarrow>
            (case yt_search_api env query maxResults' of
               None \<Rightarrow> None
             | Some results \<Rightarrow> Some (filter (\<lambda>result. yt_id result \<noteq> []) results)))"

subsection \<open>The search stage of \<^verbatim>\<open>processMusic\<close>\<close>

text \<open>\<^verbatim>\<open>arr.findIndex(p)\<close>: the first index whose element satisfies \<open>p\<close>, or \<open>-1\<close>.\<close>

fun findIndex :: "('a \<Rightarrow> bool) \<Rightarrow> 'a list \<Rightarrow> int" where
  "findIndex p [] = - 1"
| "findIndex p (x # xs) =
     (if p x then 0 else (let i = findIndex p xs in if i < 0 then - 1 else i + 1))"

text \<open>\<^verbatim>\<open>arr.filter((x, index, arr) => f)\<close>.\<close>

definition filter_indexed :: "('a \<Rightarrow> nat \<Rightarrow> 'a list \<Rightarrow> bool) \<Rightarrow> 'a list \<Rightarrow> 'a list" where
  "filter_indexed f arr =
     map snd (filter (\<lambda>(index, x). f x index arr) (zip [0..<length arr] arr))"

text \<open>\<^verbatim>\<open>arr.slice(0, end)\<close> for an integer \<open>end\<close>: a negative end counts from the back.\<close>

definition slice0 :: "int \<Rightarrow> 'a list \<Rightarrow> 'a list" where
  "slice0 end' arr =
     (if end' < 0 then take (nat (int (length arr) + end')) arr else take (nat end') arr)"

definition removeDuplicates :: "YouTubeSearchResult list \<Rightarrow> YouTubeSearchResult list" where
  "removeDuplicates allResults =
     filter_indexed
       (\<lambda>result index arr. findIndex (\<lambda>r. yt_id r = yt_id result) arr = int index) allResults"

definition uniqueResults :: "YouTubeSearchResult list \<Rightarrow> int \<Rightarrow> YouTubeSearchResult list" where
  "uniqueResults allResults maxTracks = slice0 maxTracks (removeDuplicates allResults)"

text \<open>
  \<^verbatim>\<open>Promise.all\<close> over the mapped terms: the array of results in the order of the
  terms, whatever the order in which the searches complete, or a rejection when one of
  them rejects. The pair returned is \<open>allResults\<close> and \<open>uniqueResults\<close>.
\<close>

definition searchStage ::
  "env \<Rightarrow> ProcessedQuery \<Rightarrow> int \<Rightarrow>
   (YouTubeSearchResult list \<times> YouTubeSearchResult list) option" where
  "searchStage env processedQuery maxTracks =
     (case those (map (\<lambda>term.
               searchMusic env term
                 (ceil_div maxTracks (int (length (searchTerms processedQuery)))))
             (take 3 (searchTerms processedQuery))) of
        None \<Rightarrow> None
      | Some searchResults \<Rightarrow>
          let allResults = concat searchResults
          in Some (allResults, uniqueResults allResults maxTracks))"

subsection \<open>Track processing\<close>

definition newTrack :: "YouTubeSearchResult \<Rightarrow> video_metadata option \<Rightarrow> Track" where
  "newTrack ytResult metadata =
     \<lparr>youtubeId = yt_id ytResult,
      title = (case metadata of
                 None \<Rightarrow> yt_title ytResult
               | Some m \<Rightarrow> if vm_title m \<noteq> [] then vm_title m else yt_title ytResult),
      artist = map_option vm_artist metadata,
      durationSeconds = map_option vm_duration metadata,
      thumbnailUrl = yt_thumbnailUrl ytResult,
      youtubeUrl = ''https://www.youtube.com/watch?v='' @ yt_id ytResult,
      audioUrl = None,
      bpm = None, musicalKey = None, camelotKey = None, energyLevel = None,
      loudness = None, tempoConfidence = None, keyConfidence = None,
      waveformPeaks = None, genre = None, mood = None,
      analysisStatus = Pending\<rparr>"

definition applyLlmMetadata :: "llm_metadata \<Rightarrow> Track \<Rightarrow> Track" where
  "applyLlmMetadata llmMetadata track =
     track\<lparr>genre := (if truthy_s (lm_genre llmMetadata) then lm_genre llmMetadata
                      else genre track),
           mood := (if truthy_s (lm_mood llmMetadata) then lm_mood llmMetadata
                     else mood track),
           bpm := (if truthy_n (lm_bpm llmMetadata) then lm_bpm llmMetadata else bpm track),
           musicalKey := (if truthy_s (lm_key llmMetadata) then lm_key llmMetadata
                          else musicalKey track)\<rparr>"

definition applyAnalysis :: "AudioAnalysisResult \<Rightarrow> Track \<Rightarrow> Track" where
  "applyAnalysis analysis track =
     track\<lparr>bpm := (if truthy_n (a_bpm analysis) then a_bpm analysis else bpm track),
           musicalKey := (if truthy_s (a_musicalKey analysis) then a_musicalKey analysis
                          else musicalKey track),
           camelotKey := (if truthy_s (a_camelotKey analysis) then a_camelotKey analysis
                          else camelotKey track),
           energyLevel := (if a_energyLevel analysis \<noteq> None then a_energyLevel analysis
                           else energyLevel track),
           loudness := (if a_loudness analysis \<noteq> None then a_loudness analysis
                        else loudness track),
           waveformPeaks := (if a_waveformPeaks analysis \<noteq> None then a_waveformPeaks analysis
                             else waveformPeaks track),
           genre := (if truthy_s (a_genre analysis) \<and> \<not> truthy_s (genre track)
                     then a_genre analysis else genre track),
           mood := (if truthy_s (a_mood analysis) \<and> \<not> truthy_s (mood track)
                    then a_mood analysis else mood track),
           tempoConfidence := a_tempoConfidence analysis,
           keyConfidence := a_keyConfidence analysis,
           analysisStatus := Completed\<rparr>"

text \<open>
  The body of the loop up to \<^verbatim>\<open>tracks.push(track)\<close>, with the metadata cache
  before and after; the track is \<open>None\<close> when the outer \<^verbatim>\<open>catch\<close> skips the
  result. A failure of the download or of the analysis marks the track failed and keeps
  it.
\<close>

definition processTrack ::
  "env \<Rightarrow> metadata_cache \<Rightarrow> bool \<Rightarrow> quality \<Rightarrow> YouTubeSearchResult \<Rightarrow>
   Track option \<times> metadata_cache" where
  "processTrack env cache' analyzeAudio downloadQuality ytResult =
     (let metadata = getVideoMetadata env (yt_id ytResult);
          track = newTrack ytResult metadata
      in case extractMetadata env cache' (title track) (yt_description ytResult) of
           None \<Rightarrow> (None, cache')
         | Some (llmMetadata, cache1) \<Rightarrow>
             let track1 = applyLlmMetadata llmMetadata track
             in if analyzeAudio
                then (case getDownloadUrl env (yt_id ytResult) downloadQuality of
                        None \<Rightarrow> (Some (track1\<lparr>analysisStatus := Failed\<rparr>), cache1)
                      | Some url \<Rightarrow>
                          (case analyzeFromUrl env url of
                             None \<Rightarrow>
                               (Some (track1\<lparr>audioUrl := Some url, analysisStatus := Failed\<rparr>),
                                cache1)
                           | Some analysis \<Rightarrow>
                               (Some (applyAnalysis analysis (track1\<lparr>audioUrl := Some url\<rparr>)),
                                cache1)))
                else (Some track1, cache1))"

subsection \<open>\<^verbatim>\<open>saveTrackToDatabase\<close>\<close>

text \<open>
  The table \<^verbatim>\<open>tracks\<close> of \<^verbatim>\<open>database/schema.sql\<close> has \<^verbatim>\<open>youtube_id\<close> unique,
  so it is a map from that column to the row; the row has the columns of a \<open>Track\<close>.
  The statement is an insert with \<^verbatim>\<open>ON CONFLICT (youtube_id) DO UPDATE SET\<close> of five
  columns (and \<^verbatim>\<open>updated_at\<close>).

  Before the insert or the update, every value of the statement is converted to the type
  of its column, and the whole statement fails when one of them does not fit:
  \<^item> a string with a NUL character is refused by every text type;
  \<^item> \<^verbatim>\<open>VARCHAR(n)\<close> refuses a string of more than \<open>n\<close> characters, unless the
    characters beyond the \<open>n\<close>-th are all spaces, which are cut off;
  \<^item> \<^verbatim>\<open>DECIMAL(p, s)\<close> rounds to \<open>s\<close> decimal places, ties away from zero, and
    refuses a rounded value whose absolute value is not below \<open>10 ^ (p - s)\<close>;
  \<^item> \<^verbatim>\<open>INTEGER\<close> refuses a value outside 32 bits.
  A missing value (\<^verbatim>\<open>undefined\<close>) is stored as NULL in a nullable column.
  A character of a string is a \<open>char\<close>; numbers are reals, so \<^verbatim>\<open>NaN\<close> and the
  infinities are outside the model.
\<close>

definition pg_text :: "string \<Rightarrow> string option" where
  "pg_text v = (if CHR 0x00 \<in> set v then None else Some v)"

definition pg_varchar :: "nat \<Rightarrow> string \<Rightarrow> string option" where
  "pg_varchar n v =
     (if CHR 0x00 \<in> set v then None
      else if length v \<le> n then Some v
      else if list_all (\<lambda>c. c = CHR '' '') (drop n v) then Some (take n v)
      else None)"

definition round_half_away :: "real \<Rightarrow> int" where
  "round_half_away x = (if 0 \<le> x then \<lfloor>x + 1 / 2\<rfloor> else - \<lfloor>- x + 1 / 2\<rfloor>)"

definition pg_decimal :: "nat \<Rightarrow> nat \<Rightarrow> real \<Rightarrow> real option" where
  "pg_decimal p s v =
     (let rounded = real_of_int (round_half_away (v * 10 ^ s)) / 10 ^ s
      in if \<bar>rounded\<bar> < 10 ^ (p - s) then Some rounded else None)"

definition pg_integer :: "int \<Rightarrow> int option" where
  "pg_integer v = (if - 2147483648 \<le> v \<and> v \<le> 2147483647 then Some v else None)"

definition pg_null :: "('a \<Rightarrow> 'b option) \<Rightarrow> 'a option \<Rightarrow> 'b option option" where
  "pg_null convert v = (case v of None \<Rightarrow> Some None | Some x \<Rightarrow> map_option Some (convert x))"

text \<open>
  The row proposed for insertion (\<^verbatim>\<open>EXCLUDED\<close> in the statement), or \<open>None\<close> when
  a value does not fit its column. The waveform is stored as JSON and the status is one
  of four short words: both always fit.
\<close>

definition proposed_row :: "Track \<Rightarrow> Track option" where
  "proposed_row track =
     (let youtube_id = pg_varchar 50 (youtubeId track);
          title' = pg_varchar 500 (title track);
          artist' = pg_null (pg_varchar 500) (artist track);
          duration_seconds = pg_null pg_integer (durationSeconds track);
          thumbnail_url = pg_text (thumbnailUrl track);
          youtube_url = pg_text (youtubeUrl track);
          audio_url = pg_null pg_text (audioUrl track);
          bpm' = pg_null (pg_decimal 6 2) (bpm track);
          musical_key = pg_null (pg_varchar 10) (musicalKey track);
          camelot_key = pg_null (pg_varchar 5) (camelotKey track);
          energy_level = pg_null (pg_decimal 3 2) (energyLevel track);
          loudness' = pg_null (pg_decimal 6 2) (loudness track);
          tempo_confidence = pg_null (pg_decimal 3 2) (tempoConfidence track);
          key_confidence = pg_null (pg_decimal 3 2) (keyConfidence track);
          genre' = pg_null (pg_varchar 100) (genre track);
          mood' = pg_null (pg_varchar 100) (mood track)
      in if youtube_id \<noteq> None \<and> title' \<noteq> None \<and> artist' \<noteq> None
            \<and> duration_seconds \<noteq> None \<and> thumbnail_url \<noteq> None \<and> youtube_url \<noteq> None
            \<and> audio_url \<noteq> None \<and> bpm' \<noteq> None \<and> musical_key \<noteq> None
            \<and> camelot_key \<noteq> None \<and> energy_level \<noteq> None \<and> loudness' \<noteq> None
            \<and> tempo_confidence \<noteq> None \<and> key_confidence \<noteq> None \<and> genre' \<noteq> None
            \<and> mood' \<noteq> None
         then Some \<lparr>youtubeId = the youtube_id, title = the title', artist = the artist',
                    durationSeconds = the duration_seconds, thumbnailUrl = the thumbnail_url,
                    youtubeUrl = the youtube_url, audioUrl = the audio_url, bpm = the bpm',
                    musicalKey = the musical_key, camelotKey = the camelot_key,
                    energyLevel = the energy_level, loudness = the loudness',
                    tempoConfidence = the tempo_confidence,
                    keyConfidence = the key_confidence,
                    waveformPeaks = waveformPeaks track, genre = the genre', mood = the mood',
                    analysisStatus = analysisStatus track\<rparr>
         else None)"

type_synonym tracks_table = "string \<Rightarrow> Track option"

definition coalesce :: "'a option \<Rightarrow> 'a option \<Rightarrow> 'a option" where
  "coalesce a b = (case a of Some v \<Rightarrow> Some v | None \<Rightarrow> b)"

text \<open>The statement on a table: the new table, or \<open>None\<close> when the statement fails.\<close>

definition upsert_track :: "tracks_table \<Rightarrow> Track \<Rightarrow> tracks_table option" where
  "upsert_track table track =
     (case proposed_row track of
        None \<Rightarrow> None
      | Some excluded \<Rightarrow>
          (case table (youtubeId excluded) of
             None \<Rightarrow> Some (table(youtubeId excluded \<mapsto> excluded))
           | Some row \<Rightarrow>
               Some (table(youtubeId excluded \<mapsto>
                  row\<lparr>title := title excluded,
                      artist := artist excluded,
                      bpm := coalesce (bpm excluded) (bpm row),
                      musicalKey := coalesce (musicalKey excluded) (musicalKey row),
                      analysisStatus := analysisStatus excluded\<rparr>))))"

text \<open>
  The database is \<open>None\<close> when it cannot be reached. The function catches every error
  of the query and logs it: a failed statement leaves the table as it was.
\<close>

definition saveTrackToDatabase :: "tracks_table option \<Rightarrow> Track \<Rightarrow> tracks_table option" where
  "saveTrackToDatabase database track =
     (case database of
        None \<Rightarrow> None
      | Some table \<Rightarrow>
          (case upsert_track table track of
             None \<Rightarrow> Some table
           | Some table' \<Rightarrow> Some table'))"

subsection \<open>\<^verbatim>\<open>calculateConfidenceScore\<close>\<close>

definition bpm_filter :: "ProcessedQuery \<Rightarrow> range option" where
  "bpm_filter processedQuery =
     (case filters processedQuery of None \<Rightarrow> None | Some f \<Rightarrow> f_bpm f)"

definition analyzedTracks :: "Track list \<Rightarrow> Track list" where
  "analyzedTracks ts = filter (\<lambda>t. analysisStatus t = Completed) ts"

definition matchingBPM :: "range \<Rightarrow> Track list \<Rightarrow> Track list" where
  "matchingBPM f analyzed =
     filter (\<lambda>t.
       if \<not> truthy_n (bpm t) then False
       else
         let min' = (case range_min f of None \<Rightarrow> 0 | Some m \<Rightarrow> m);
             max' = (if truthy_n (range_max f) then the (range_max f) else 200)
         in the (bpm t) \<ge> min' \<and> the (bpm t) \<le> max') analyzed"

definition calculateConfidenceScore :: "ProcessedQuery \<Rightarrow> Track list \<Rightarrow> real" where
  "calculateConfidenceScore processedQuery ts =
     (if length ts = 0 then 0
      else
        let score0 = 0.5;
            score1 = score0 + min (real (length ts) / 10) 0.3;
            analyzed = analyzedTracks ts;
            score2 = (if length analyzed > 0
                      then score1 + (real (length analyzed) / real (length ts)) * 0.2
                      else score1);
            score3 =
              (case bpm_filter processedQuery of
                 None \<Rightarrow> score2
               | Some f \<Rightarrow>
                   if length analyzed > 0
                   then (let matching = matchingBPM f analyzed
                         in if length matching > 0
                            then score2 + (real (length matching) / real (length analyzed)) * 0.2
                            else score2)
                   else score2)
        in min score3 1.0)"

subsection \<open>\<^verbatim>\<open>processMusic\<close>\<close>

text \<open>
  The loop over \<open>uniqueResults\<close>, with the metadata cache, the tracks collected so
  far and the database.
\<close>

fun processTracks ::
  "env \<Rightarrow> bool \<Rightarrow> quality \<Rightarrow> YouTubeSearchResult list \<Rightarrow> metadata_cache \<Rightarrow> Track list \<Rightarrow>
   tracks_table option \<Rightarrow> Track list \<times> tracks_table option" where
  "processTracks env analyzeAudio downloadQuality [] cache' ts database = (ts, database)"
| "processTracks env analyzeAudio downloadQuality (ytResult # rest) cache' ts database =
     (case processTrack env cache' analyzeAudio downloadQuality ytResult of
        (None, cache1) \<Rightarrow>
          processTracks env analyzeAudio downloadQuality rest cache1 ts database
      | (Some track, cache1) \<Rightarrow>
          processTracks env analyzeAudio downloadQuality rest cache1 (ts @ [track])
            (saveTrackToDatabase database track))"

definition completed_steps :: "ProcessingStep list" where
  "completed_steps =
     [\<lparr>step = ''llm_processing'', status = StepCompleted\<rparr>,
      \<lparr>step = ''youtube_search'', status = StepCompleted\<rparr>,
      \<lparr>step = ''track_processing'', status = StepCompleted\<rparr>]"

text \<open>
  The three steps are pushed with the literal status \<^verbatim>\<open>'completed'\<close>. An exception
  that reaches the outer \<^verbatim>\<open>catch\<close> (from \<open>processRequest\<close> or from the searches)
  is answered 500 PROCESSING_ERROR. Logging the request changes neither the answer nor
  the table of tracks.
\<close>

definition processMusic ::
  "env \<Rightarrow> tracks_table option \<Rightarrow> ProcessMusicRequest \<Rightarrow> response \<times> tracks_table option" where
  "processMusic env database body =
     (let maxTracks = (case body_maxTracks body of None \<Rightarrow> 10 | Some m \<Rightarrow> m);
          analyzeAudio = (case body_analyzeAudio body of None \<Rightarrow> True | Some b \<Rightarrow> b);
          downloadQuality = (case body_downloadQuality body of None \<Rightarrow> Standard | Some q \<Rightarrow> q)
      in case body_request body of
           None \<Rightarrow> (InvalidRequest, database)
         | Some userQuery \<Rightarrow>
             if userQuery = [] then (InvalidRequest, database)
             else
               (case processRequest env userQuery of
                  None \<Rightarrow> (ProcessingError, database)
                | Some processedQuery \<Rightarrow>
                    (case searchStage env processedQuery maxTracks of
                       None \<Rightarrow> (ProcessingError, database)
                     | Some (allResults, unique) \<Rightarrow>
                         (case processTracks env analyzeAudio downloadQuality unique
                                 (llm_metadata_cache env) [] database of
                            (ts, database') \<Rightarrow>
                              (Success \<lparr>tracks = ts, totalFound = length ts,
                                        processingSteps = completed_steps,
                                        confidence = calculateConfidenceScore processedQuery ts\<rparr>,
                               database')))))"

section \<open>Auxiliary notions for the properties\<close>

text \<open>Position \<open>i\<close> of a result list holds the first result with its identifier.\<close>

definition first_at :: "YouTubeSearchResult list \<Rightarrow> nat \<Rightarrow> bool" where
  "first_at xs i = (\<forall>j<i. yt_id (xs ! j) \<noteq> yt_id (xs ! i))"

text \<open>
  The confidence score in the words of the specification, over the number of tracks, the
  number of analyzed tracks, whether a BPM filter is present and the number of analyzed
  tracks in the BPM range.
\<close>

definition spec_confidence :: "nat \<Rightarrow> nat \<Rightarrow> bool \<Rightarrow> nat \<Rightarrow> real" where
  "spec_confidence trackCount analyzedCount bpmFilterPresent bpmMatchCount =
     (if trackCount = 0 then 0
      else max 0 (min 1
        (0.5 + min (real trackCount / 10) 0.3
         + (if analyzedCount \<ge> 1 then (real analyzedCount / real trackCount) * 0.2 else 0)
         + (if bpmFilterPresent \<and> analyzedCount \<ge> 1
            then (real bpmMatchCount / real analyzedCount) * 0.2 else 0))))"

text \<open>
  The counts of the specification, stated on the tracks themselves. A track completed
  analysis when its status says so. A BPM filter is present when the query has filters
  with a \<open>bpm\<close> entry. A track is in the range of the filter when it has a BPM value
  other than 0 that is at least the lower bound (0 when the filter has none) and at most
  the upper bound (200 when the filter has none, or has 0); only tracks that completed
  analysis are counted.
\<close>

definition spec_analyzed_count :: "Track list \<Rightarrow> nat" where
  "spec_analyzed_count ts = length (filter (\<lambda>t. analysisStatus t = Completed) ts)"

definition spec_bpm_filter :: "ProcessedQuery \<Rightarrow> range option" where
  "spec_bpm_filter q = Option.bind (filters q) f_bpm"

definition spec_in_bpm_range :: "range \<Rightarrow> Track \<Rightarrow> bool" where
  "spec_in_bpm_range f t =
     (case bpm t of
        None \<Rightarrow> False
      | Some b \<Rightarrow>
          b \<noteq> 0
          \<and> (case range_min f of None \<Rightarrow> 0 | Some lo \<Rightarrow> lo) \<le> b
          \<and> b \<le> (case range_max f of None \<Rightarrow> 200 | Some hi \<Rightarrow> if hi = 0 then 200 else hi))"

definition spec_bpm_match_count :: "ProcessedQuery \<Rightarrow> Track list \<Rightarrow> nat" where
  "spec_bpm_match_count q ts =
     (case spec_bpm_filter q of
        None \<Rightarrow> 0
      | Some f \<Rightarrow>
          length (filter (\<lambda>t. analysisStatus t = Completed \<and> spec_in_bpm_range f t) ts))"

text \<open>
  Two search terms whose results share the identifier \<open>X\<close>: term \<open>a\<close> returns it
  titled \<open>Foo\<close>, term \<open>b\<close> returns it titled \<open>Bar\<close> and a second result \<open>Y\<close>.
  In \<open>ab_env\<close> nothing is cached, the language model answers the two terms, and
  metadata, download and analysis are unavailable.
\<close>

definition foo_result :: YouTubeSearchResult where
  "foo_result = \<lparr>yt_id = ''X'', yt_title = ''Foo'', yt_description = [], yt_thumbnailUrl = []\<rparr>"
definition bar_result :: YouTubeSearchResult where
  "bar_result = \<lparr>yt_id = ''X'', yt_title = ''Bar'', yt_description = [], yt_thumbnailUrl = []\<rparr>"
definition baz_result :: YouTubeSearchResult where
  "baz_result = \<lparr>yt_id = ''Y'', yt_title = ''Baz'', yt_description = [], yt_thumbnailUrl = []\<rparr>"

definition ab_results :: "string \<Rightarrow> YouTubeSearchResult list" where
  "ab_results term = (if term = ''a'' then [foo_result]
                      else if term = ''b'' then [bar_result, baz_result] else [])"

definition ab_env :: env where
  "ab_env = \<lparr>redis_up = True,
     llm_query_cache = (\<lambda>q. None),
     llm_completion = (\<lambda>q. Some \<lparr>j_intent = Some Search, j_searchTerms = Some [''a'', ''b''],
                                   j_filters = None, j_maxResults = None, j_sortBy = None\<rparr>),
     llm_metadata_cache = (\<lambda>t. None),
     llm_metadata_completion = (\<lambda>t d. None),
     yt_search_cache = (\<lambda>q k. None),
     yt_search_api = (\<lambda>q k. Some (ab_results q)),
     getVideoMetadata = (\<lambda>v. None),
     getDownloadUrl = (\<lambda>v q. None),
     analyzeFromUrl = (\<lambda>u. None)\<rparr>"

definition ab_query :: ProcessedQuery where
  "ab_query = \<lparr>intent = Search, searchTerms = [''a'', ''b''], filters = None,
               maxResults = 10, sortBy = ''relevance''\<rparr>"

definition sample_track :: "string \<Rightarrow> analysis_status \<Rightarrow> real option \<Rightarrow> Track" where
  "sample_track name st b =
     \<lparr>youtubeId = ''X'', title = name, artist = None, durationSeconds = None,
      thumbnailUrl = [], youtubeUrl = ''https://www.youtube.com/watch?v=X'', audioUrl = None,
      bpm = b, musicalKey = None, camelotKey = None, energyLevel = None,
      loudness = None, tempoConfidence = None, keyConfidence = None,
      waveformPeaks = None, genre = None, mood = None, analysisStatus = st\<rparr>"

text \<open>
  A query with the BPM filter 115 to 125, and three tracks: one analyzed at 120 BPM, one
  analyzed at 140 BPM, one whose analysis failed.
\<close>

definition bpm_query :: ProcessedQuery where
  "bpm_query =
     ab_query\<lparr>filters := Some (no_filters\<lparr>f_bpm := Some \<lparr>range_min = Some 115,
                                                          range_max = Some 125\<rparr>\<rparr>)\<rparr>"

definition three_tracks :: "Track list" where
  "three_tracks =
     [sample_track ''Foo'' Completed (Some 120), sample_track ''Bar'' Completed (Some 140),
      sample_track ''Baz'' Failed None]"

text \<open>
  Variants of \<open>ab_env\<close>: the language model fails; every search fails; every search
  succeeds with no result. A request body with the text only, and two tracks with the
  same identifier for two runs of the pipeline.
\<close>

definition llm_down_env :: env where
  "llm_down_env = ab_env\<lparr>llm_completion := (\<lambda>q. None)\<rparr>"

definition search_down_env :: env where
  "search_down_env = ab_env\<lparr>yt_search_api := (\<lambda>q k. None)\<rparr>"

definition no_results_env :: env where
  "no_results_env = ab_env\<lparr>yt_search_api := (\<lambda>q k. Some [])\<rparr>"

definition body_of :: "string \<Rightarrow> ProcessMusicRequest" where
  "body_of text = \<lparr>body_request = Some text, body_maxTracks = None, body_analyzeAudio = None,
                   body_downloadQuality = None\<rparr>"




text \<open>
  A track whose values the columns of the table take as they are: no NUL character,
  strings within the column widths, numbers with at most two decimal places and within
  the column ranges.
\<close>

definition fits_text :: "string \<Rightarrow> bool" where
  "fits_text v = (CHR 0x00 \<notin> set v)"

definition fits_varchar :: "nat \<Rightarrow> string \<Rightarrow> bool" where
  "fits_varchar n v = (CHR 0x00 \<notin> set v \<and> length v \<le> n)"

definition fits_decimal :: "nat \<Rightarrow> real \<Rightarrow> bool" where
  "fits_decimal p v = (real_of_int \<lfloor>v * 100\<rfloor> = v * 100 \<and> \<bar>v\<bar> < 10 ^ (p - 2))"

definition fits_integer :: "int \<Rightarrow> bool" where
  "fits_integer v = (- 2147483648 \<le> v \<and> v \<le> 2147483647)"

definition fits_null :: "('a \<Rightarrow> bool) \<Rightarrow> 'a option \<Rightarrow> bool" where
  "fits_null fits v = (case v of None \<Rightarrow> True | Some x \<Rightarrow> fits x)"

definition fits_columns :: "Track \<Rightarrow> bool" where
  "fits_columns track =
     (fits_varchar 50 (youtubeId track) \<and> fits_varchar 500 (title track)
      \<and> fits_null (fits_varchar 500) (artist track)
      \<and> fits_null fits_integer (durationSeconds track)
      \<and> fits_text (thumbnailUrl track) \<and> fits_text (youtubeUrl track)
      \<and> fits_null fits_text (audioUrl track)
      \<and> fits_null (fits_decimal 6) (bpm track)
      \<and> fits_null (fits_varchar 10) (musicalKey track)
      \<and> fits_null (fits_varchar 5) (camelotKey track)
      \<and> fits_null (fits_decimal 3) (energyLevel track)
      \<and> fits_null (fits_decimal 6) (loudness track)
      \<and> fits_null (fits_decimal 3) (tempoConfidence track)
      \<and> fits_null (fits_decimal 3) (keyConfidence track)
      \<and> fits_null (fits_varchar 100) (genre track)
      \<and> fits_null (fits_varchar 100) (mood track))"

section \<open>Properties of the rate limiter\<close>

subsection \<open>The plan lookup\<close>

lemma map_of_RATE_LIMITS_free:
  "map_of RATE_LIMITS ''free'' = Some \<lparr>requests = 100, windowMs = 3600000\<rparr>"
  by (simp add: RATE_LIMITS_def)

lemma limits_for_free: "limits_for ''free'' = Own \<lparr>requests = 100, windowMs = 3600000\<rparr>"
  by (simp add: limits_for_def js_get_def map_of_RATE_LIMITS_free)

lemma limits_for_starter:
  "limits_for ''starter'' = Own \<lparr>requests = 1000, windowMs = 3600000\<rparr>"
  by (simp add: limits_for_def js_get_def RATE_LIMITS_def)

lemma RATE_LIMITS_members:
  "(p, L) \<in> set RATE_LIMITS \<Longrightarrow> windowMs L = 3600000 \<and> 0 < requests L"
  by (auto simp: RATE_LIMITS_def)

lemma limits_for_Own_D: "limits_for p = Own L \<Longrightarrow> \<exists>q. (q, L) \<in> set RATE_LIMITS"
  unfolding limits_for_def js_get_def
  by (auto split: option.splits if_splits dest: map_of_SomeD)

lemma limits_for_Own_window:
  "limits_for p = Own L \<Longrightarrow> windowMs L = 3600000 \<and> 0 < requests L"
  using limits_for_Own_D RATE_LIMITS_members by blast

subsection \<open>Windows and expiry\<close>

lemma ceil_div_ge: "a \<le> ceil_div a 1000 * 1000"
proof -
  have "- a = (- a) div 1000 * 1000 + (- a) mod 1000" by simp
  moreover have "0 \<le> (- a) mod 1000" by simp
  ultimately have "(- a) div 1000 * 1000 \<le> - a" by linarith
  then show ?thesis by (simp add: ceil_div_def)
qed

lemma window_bounds:
  assumes "0 < W" "t div W = (w::int)"
  shows "w * W \<le> t" "t < (w + 1) * W"
proof -
  have "t = w * W + t mod W" using assms(2) by (metis div_mult_mod_eq)
  moreover have "0 \<le> t mod W" "t mod W < W" using assms(1) by simp_all
  ultimately show "w * W \<le> t" "t < (w + 1) * W" by (auto simp: algebra_simps)
qed

lemma map_upt_Suc0: "map f [0..<Suc n] = f 0 # map (\<lambda>i. f (Suc i)) [0..<n]"
  by (simp add: map_upt_Suc del: upt_Suc)

lemma counter_state_absent: "s key = None \<Longrightarrow> counter_state s key 0 wend"
  by (simp add: counter_state_def)

lemma request_count_counter_state:
  assumes "counter_state s key c wend" "now < wend"
  shows "request_count s now key = c"
  using assms
  by (auto simp: counter_state_def request_count_def redis_get_def live_def split: if_splits)

subsection \<open>One check\<close>

lemma middleware_Own:
  assumes "req_user req = Some u" "req_apiKey req = Some a" "limits_for (plan u) = Own L"
  shows "rateLimitMiddleware (Some s) now req =
     (let key = RateLimitKey (uid u) (Num (window_start now L));
          n = request_count s now key;
          info = \<lparr>limit = requests L, remaining = max 0 (requests L - n - 1),
                  resetTime = window_start now L + windowMs L\<rparr>
      in if requests L \<le> n then (RateLimitExceeded info, Some s)
         else (Next (Some info),
               Some (if n = 0
                     then redis_expire (redis_incr s now key) now key (ceil_div (windowMs L) 1000)
                     else redis_incr s now key)))"
  using assms by (simp add: rateLimitMiddleware_def Let_def)

lemma step_allowed:
  assumes req: "req_user req = Some u" "req_apiKey req = Some a"
    and L: "limits_for (plan u) = Own L"
    and t: "t div windowMs L = w"
    and cs: "counter_state s (RateLimitKey (uid u) (Num (w * windowMs L))) c ((w + 1) * windowMs L)"
    and c: "0 \<le> c" "c < requests L"
  shows "\<exists>s'. rateLimitMiddleware (Some s) t req =
           (Next (Some \<lparr>limit = requests L, remaining = requests L - c - 1,
                        resetTime = (w + 1) * windowMs L\<rparr>), Some s')
         \<and> counter_state s' (RateLimitKey (uid u) (Num (w * windowMs L))) (c + 1)
              ((w + 1) * windowMs L)
         \<and> (\<forall>k. k \<noteq> RateLimitKey (uid u) (Num (w * windowMs L)) \<longrightarrow> s' k = s k)"
proof -
  let ?W = "windowMs L" and ?key = "RateLimitKey (uid u) (Num (w * windowMs L))"
  have W: "?W = 3600000" using limits_for_Own_window[OF L] by simp
  have ws: "window_start t L = w * ?W" by (simp add: window_start_def t)
  have tb: "w * ?W \<le> t" "t < (w + 1) * ?W" using window_bounds[of ?W t w] W t by simp_all
  have n: "request_count s t ?key = c" using request_count_counter_state[OF cs tb(2)] .
  have reset: "w * ?W + ?W = (w + 1) * ?W" by (simp add: algebra_simps)
  have ttl: "(w + 1) * ?W \<le> t + ceil_div ?W 1000 * 1000"
    using ceil_div_ge[of ?W] tb(1) by (simp add: algebra_simps)
  show ?thesis
  proof (cases "c = 0")
    case True
    then have "s ?key = None" using cs by (simp add: counter_state_def)
    then show ?thesis using True n c ws reset ttl
      by (simp add: middleware_Own[OF req L] Let_def redis_incr_def redis_expire_def
          counter_state_def)
  next
    case False
    then obtain e where e: "s ?key = Some \<lparr>count = c, expireAt = Some e\<rparr>" "(w + 1) * ?W \<le> e"
      using cs by (auto simp: counter_state_def)
    have "live t \<lparr>count = c, expireAt = Some e\<rparr>" using e(2) tb(2) by (simp add: live_def)
    then show ?thesis using False n c ws reset e
      by (simp add: middleware_Own[OF req L] Let_def redis_incr_def counter_state_def)
  qed
qed

lemma step_denied:
  assumes req: "req_user req = Some u" "req_apiKey req = Some a"
    and L: "limits_for (plan u) = Own L"
    and t: "t div windowMs L = w"
    and cs: "counter_state s (RateLimitKey (uid u) (Num (w * windowMs L))) c ((w + 1) * windowMs L)"
    and c: "requests L \<le> c"
  shows "rateLimitMiddleware (Some s) t req =
           (RateLimitExceeded \<lparr>limit = requests L, remaining = 0,
                               resetTime = (w + 1) * windowMs L\<rparr>, Some s)"
proof -
  let ?W = "windowMs L" and ?key = "RateLimitKey (uid u) (Num (w * windowMs L))"
  have W: "?W = 3600000" using limits_for_Own_window[OF L] by simp
  have ws: "window_start t L = w * ?W" by (simp add: window_start_def t)
  have tb: "w * ?W \<le> t" "t < (w + 1) * ?W" using window_bounds[of ?W t w] W t by simp_all
  have n: "request_count s t ?key = c" using request_count_counter_state[OF cs tb(2)] .
  have reset: "w * ?W + ?W = (w + 1) * ?W" by (simp add: algebra_simps)
  show ?thesis using n c ws reset
    by (simp add: middleware_Own[OF req L] Let_def)
qed

subsection \<open>Sequences of checks\<close>

lemma run_checks_append:
  "run_checks r req (xs @ ys) =
     (case run_checks r req xs of
        (o1, r1) \<Rightarrow> (case run_checks r1 req ys of (o2, r2) \<Rightarrow> (o1 @ o2, r2)))"
  by (induction xs arbitrary: r) (auto split: prod.splits)

text \<open>
  While the counter of the window stays below the limit, every check in that window is
  let through, reports the remaining quota and adds one to the counter; no other key
  changes.
\<close>

lemma run_allowed:
  assumes req: "req_user req = Some u" "req_apiKey req = Some a"
    and L: "limits_for (plan u) = Own L"
  shows "\<lbrakk>\<forall>t \<in> set ts. t div windowMs L = w;
          counter_state s (RateLimitKey (uid u) (Num (w * windowMs L))) c ((w + 1) * windowMs L);
          0 \<le> c; c + int (length ts) \<le> requests L\<rbrakk>
     \<Longrightarrow> \<exists>s'. run_checks (Some s) req ts =
           (map (\<lambda>i. Next (Some \<lparr>limit = requests L, remaining = requests L - (c + int i) - 1,
                                   resetTime = (w + 1) * windowMs L\<rparr>)) [0..<length ts], Some s')
         \<and> counter_state s' (RateLimitKey (uid u) (Num (w * windowMs L))) (c + int (length ts))
              ((w + 1) * windowMs L)
         \<and> (\<forall>k. k \<noteq> RateLimitKey (uid u) (Num (w * windowMs L)) \<longrightarrow> s' k = s k)"
proof (induction ts arbitrary: s c)
  case Nil
  then show ?case by simp
next
  case (Cons t ts)
  let ?key = "RateLimitKey (uid u) (Num (w * windowMs L))"
  let ?out = "\<lambda>c i. Next (Some \<lparr>limit = requests L, remaining = requests L - (c + int i) - 1,
                                  resetTime = (w + 1) * windowMs L\<rparr>)"
  have t: "t div windowMs L = w" using Cons.prems(1) by simp
  have c: "0 \<le> c" "c < requests L" using Cons.prems(3,4) by simp_all
  obtain s1 where s1: "rateLimitMiddleware (Some s) t req = (?out c 0, Some s1)"
      "counter_state s1 ?key (c + 1) ((w + 1) * windowMs L)"
      "\<forall>k. k \<noteq> ?key \<longrightarrow> s1 k = s k"
    using step_allowed[OF req L t Cons.prems(2) c] by auto
  have "\<forall>t \<in> set ts. t div windowMs L = w" using Cons.prems(1) by simp
  moreover have "0 \<le> c + 1" "(c + 1) + int (length ts) \<le> requests L"
    using Cons.prems(3,4) by simp_all
  ultimately obtain s2 where s2:
      "run_checks (Some s1) req ts = (map (?out (c + 1)) [0..<length ts], Some s2)"
      "counter_state s2 ?key ((c + 1) + int (length ts)) ((w + 1) * windowMs L)"
      "\<forall>k. k \<noteq> ?key \<longrightarrow> s2 k = s1 k"
    using Cons.IH[OF _ s1(2)] by blast
  have m: "map (?out c) [0..<length (t # ts)] = ?out c 0 # map (?out (c + 1)) [0..<length ts]"
    by (simp add: map_upt_Suc0 algebra_simps del: upt_Suc)
  have "run_checks (Some s) req (t # ts) = (map (?out c) [0..<length (t # ts)], Some s2)"
    unfolding m by (simp add: s1(1) s2(1))
  moreover have "counter_state s2 ?key (c + int (length (t # ts))) ((w + 1) * windowMs L)"
    using s2(2) by (simp add: algebra_simps)
  moreover have "\<forall>k. k \<noteq> ?key \<longrightarrow> s2 k = s k" using s1(3) s2(3) by simp
  ultimately show ?case by blast
qed

subsection \<open>Window rollover on the starter plan\<close>

text \<open>
  Claim C4. A subject on the starter plan whose counters for a window and for the next
  one are not yet in the store makes 1000 checks at times of that window, one more in
  the same window and one in the following window. The first 1000 are let through, the
  1001st is answered 429, and the check in the following window is let through with a
  remaining count of 999.
\<close>

theorem C4_window_rollover:
  assumes req: "req_user req = Some u" "req_apiKey req = Some a"
    and plan: "plan u = ''starter''"
    and ts: "length ts = 1000" "\<forall>t \<in> set ts. t div 3600000 = w"
    and t1: "t1 div 3600000 = w"
    and t2: "t2 div 3600000 = w + 1"
    and fresh: "s (RateLimitKey (uid u) (Num (w * 3600000))) = None"
               "s (RateLimitKey (uid u) (Num ((w + 1) * 3600000))) = None"
  shows "\<exists>s'. run_checks (Some s) req (ts @ [t1, t2]) =
           (map (\<lambda>i. Next (Some \<lparr>limit = 1000, remaining = 999 - int i,
                                   resetTime = (w + 1) * 3600000\<rparr>)) [0..<1000]
            @ [RateLimitExceeded \<lparr>limit = 1000, remaining = 0, resetTime = (w + 1) * 3600000\<rparr>,
               Next (Some \<lparr>limit = 1000, remaining = 999, resetTime = (w + 2) * 3600000\<rparr>)],
            Some s')
          \<and> status_code (RateLimitExceeded \<lparr>limit = 1000, remaining = 0,
                                            resetTime = (w + 1) * 3600000\<rparr>) = Some 429"
proof -
  let ?L = "\<lparr>requests = 1000, windowMs = 3600000\<rparr>"
  let ?k1 = "RateLimitKey (uid u) (Num (w * 3600000))"
  let ?k2 = "RateLimitKey (uid u) (Num ((w + 1) * 3600000))"
  have L: "limits_for (plan u) = Own ?L" by (simp add: plan limits_for_starter)
  have ne: "?k2 \<noteq> ?k1" by simp
  obtain s1 where s1: "run_checks (Some s) req ts =
      (map (\<lambda>i. Next (Some \<lparr>limit = 1000, remaining = 999 - int i,
                               resetTime = (w + 1) * 3600000\<rparr>)) [0..<1000], Some s1)"
      "counter_state s1 ?k1 1000 ((w + 1) * 3600000)"
      "\<forall>k. k \<noteq> ?k1 \<longrightarrow> s1 k = s k"
    using run_allowed[OF req L, of ts w s 0] ts fresh(1)
    by (auto simp: algebra_simps counter_state_absent)
  have d: "rateLimitMiddleware (Some s1) t1 req =
      (RateLimitExceeded \<lparr>limit = 1000, remaining = 0, resetTime = (w + 1) * 3600000\<rparr>, Some s1)"
    using step_denied[OF req L, of t1 w s1 1000] t1 s1(2) by simp
  have "s1 ?k2 = None" using s1(3) ne fresh(2) by simp
  then have "counter_state s1 ?k2 0 ((w + 1 + 1) * 3600000)"
    by (simp add: counter_state_absent)
  then obtain s2 where s2: "rateLimitMiddleware (Some s1) t2 req =
      (Next (Some \<lparr>limit = 1000, remaining = 999, resetTime = (w + 2) * 3600000\<rparr>), Some s2)"
    using step_allowed[OF req L, of t2 "w + 1" s1 0] t2 by (auto simp: algebra_simps)
  show ?thesis
    by (simp add: run_checks_append s1(1) d s2)
qed

theorem C4_window_rollover_witness:
  "\<exists>s'. run_checks (Some Map.empty) starter_req (replicate 1000 0 @ [3599999, 3600000]) =
     (map (\<lambda>i. Next (Some \<lparr>limit = 1000, remaining = 999 - int i, resetTime = 3600000\<rparr>))
        [0..<1000]
      @ [RateLimitExceeded \<lparr>limit = 1000, remaining = 0, resetTime = 3600000\<rparr>,
         Next (Some \<lparr>limit = 1000, remaining = 999, resetTime = 7200000\<rparr>)],
      Some s')"
  using C4_window_rollover[of starter_req "\<lparr>uid = ''S'', plan = ''starter''\<rparr>" "''key-1''"
      "replicate 1000 0" 0 3599999 3600000 Map.empty]
  by (simp add: starter_req_def)

subsection \<open>One window, one counter\<close>

lemma full_store_denied:
  "rateLimitMiddleware (Some full_store) 5 free_req =
     (RateLimitExceeded \<lparr>limit = 100, remaining = 0, resetTime = 3600000\<rparr>, Some full_store)"
  by (simp add: rateLimitMiddleware_def free_req_def limits_for_free window_start_def
      full_store_def request_count_def redis_get_def live_def)

text \<open>
  Claim C1 as the code has it. The plan table has one limit and one window per plan,
  and a check reads one counter, the one of the subject's current hourly window. The
  request is let through exactly when the count read is below the plan's limit (so the
  count after the request is within it); otherwise the answer is 429 with the plan's
  limit and the end of the hourly window. No key but that counter's changes. There is no
  burst limit, no burst counter and no field naming a window in the denial.
\<close>

theorem C1_single_window:
  assumes req: "req_user req = Some u" "req_apiKey req = Some a"
    and L: "limits_for (plan u) = Own L"
  shows "(allowed (fst (rateLimitMiddleware (Some s) now req)) \<longleftrightarrow>
            request_count s now (RateLimitKey (uid u) (Num (window_start now L))) < requests L)
       \<and> (allowed (fst (rateLimitMiddleware (Some s) now req)) \<or>
            fst (rateLimitMiddleware (Some s) now req) =
              RateLimitExceeded \<lparr>limit = requests L, remaining = 0,
                                  resetTime = window_start now L + windowMs L\<rparr>)
       \<and> (\<exists>s'. snd (rateLimitMiddleware (Some s) now req) = Some s' \<and>
             (\<forall>k. k \<noteq> RateLimitKey (uid u) (Num (window_start now L)) \<longrightarrow> s' k = s k))"
  by (auto simp: middleware_Own[OF req L] Let_def redis_incr_def redis_expire_def
      split: option.splits)

theorem C1_single_window_witness:
  "\<not> allowed (fst (rateLimitMiddleware (Some full_store) 5 free_req))
   \<and> fst (rateLimitMiddleware (Some full_store) 5 free_req) =
              RateLimitExceeded \<lparr>limit = 100, remaining = 0, resetTime = 3600000\<rparr>"
proof -
  let ?u = "\<lparr>uid = ''S'', plan = ''free''\<rparr>" and ?L = "\<lparr>requests = 100, windowMs = 3600000\<rparr>"
  have req: "req_user free_req = Some ?u" "req_apiKey free_req = Some ''key-1''"
    by (simp_all add: free_req_def)
  have L: "limits_for (plan ?u) = Own ?L" by (simp add: limits_for_free)
  have ws: "window_start 5 ?L = 0" by (simp add: window_start_def)
  have n: "request_count full_store 5 (RateLimitKey ''S'' (Num 0)) = 100"
    by (simp add: full_store_def request_count_def redis_get_def live_def)
  show ?thesis
    using C1_single_window[OF req L, of full_store 5] by (auto simp: ws n)
qed

text \<open>
  Against claim C1 as stated: a subject on the free plan makes 100 checks at one and the
  same millisecond, starting from an empty store. Whatever burst window holds that
  instant holds all 100 requests, so any burst limit below the sustained limit of 100 is
  exceeded; yet every one of the checks is let through, and the store ends with a single
  key, the hourly counter.
\<close>

theorem C1_counterexample:
  "\<exists>s'. run_checks (Some Map.empty) free_req (replicate 100 0) =
     (map (\<lambda>i. Next (Some \<lparr>limit = 100, remaining = 99 - int i, resetTime = 3600000\<rparr>))
        [0..<100],
      Some s')
    \<and> dom s' = {RateLimitKey ''S'' (Num 0)}"
proof -
  let ?u = "\<lparr>uid = ''S'', plan = ''free''\<rparr>"
  have L: "limits_for (plan ?u) = Own \<lparr>requests = 100, windowMs = 3600000\<rparr>"
    by (simp add: limits_for_free)
  obtain s' where s': "run_checks (Some Map.empty) free_req (replicate 100 0) =
     (map (\<lambda>i. Next (Some \<lparr>limit = 100, remaining = 99 - int i, resetTime = 3600000\<rparr>))
        [0..<100],
      Some s')"
     "counter_state s' (RateLimitKey ''S'' (Num 0)) 100 3600000"
     "\<forall>k. k \<noteq> RateLimitKey ''S'' (Num 0) \<longrightarrow> s' k = None"
    using run_allowed[of free_req ?u "''key-1''" _ "replicate 100 0" 0 Map.empty 0, OF _ _ L]
    by (auto simp: free_req_def counter_state_def algebra_simps)
  have "dom s' = {RateLimitKey ''S'' (Num 0)}"
    using s'(2,3) by (auto simp: counter_state_def dom_def)
  then show ?thesis using s'(1) by blast
qed

subsection \<open>What a denied check leaves behind\<close>

lemma redis_get_incr:
  "redis_get (redis_incr s now k) now k = Some (request_count s now k + 1)"
  by (auto simp: redis_incr_def redis_get_def request_count_def live_def split: option.splits)

lemma redis_get_incr_expire:
  assumes "0 < sec"
  shows "redis_get (redis_expire (redis_incr s now k) now k sec) now k =
           Some (request_count s now k + 1)"
proof -
  obtain e where e: "redis_incr s now k k = Some e" "live now e"
      "count e = request_count s now k + 1"
    using redis_get_incr[of s now k]
    by (auto simp: redis_get_def split: option.splits if_splits)
  have "now < now + sec * 1000" using assms by simp
  then show ?thesis using e by (simp add: redis_expire_def redis_get_def live_def)
qed

text \<open>
  Claim C3 as the code has it. The counter is incremented only on the path that lets the
  request through: there the count read back afterwards is one more than the count read
  before. A denied check returns before \<^verbatim>\<open>redis.incr\<close> and leaves the store as it
  was, so a rejected request consumes no quota.
\<close>

theorem C3_increment_only_when_allowed:
  assumes req: "req_user req = Some u" "req_apiKey req = Some a"
    and L: "limits_for (plan u) = Own L"
    and r: "rateLimitMiddleware (Some s) now req = (out, r')"
  shows "if allowed out
         then \<exists>s'. r' = Some s' \<and>
                redis_get s' now (RateLimitKey (uid u) (Num (window_start now L))) =
                  Some (request_count s now (RateLimitKey (uid u) (Num (window_start now L))) + 1)
         else r' = Some s"
proof -
  have W: "windowMs L = 3600000" using limits_for_Own_window[OF L] by simp
  have c: "0 < ceil_div (windowMs L) 1000" using ceil_div_ge[of 3600000] W by simp
  show ?thesis
  proof (cases "requests L \<le> request_count s now (RateLimitKey (uid u) (Num (window_start now L)))")
    case True
    then show ?thesis using r by (auto simp: middleware_Own[OF req L] Let_def)
  next
    case False
    then show ?thesis using r redis_get_incr redis_get_incr_expire[OF c]
      by (auto simp: middleware_Own[OF req L] Let_def)
  qed
qed

theorem C3_increment_only_when_allowed_witness:
  "rateLimitMiddleware (Some full_store) 5 free_req =
     (RateLimitExceeded \<lparr>limit = 100, remaining = 0, resetTime = 3600000\<rparr>, Some full_store)
   \<and> \<not> allowed (RateLimitExceeded \<lparr>limit = 100, remaining = 0, resetTime = 3600000\<rparr>)"
proof -
  let ?u = "\<lparr>uid = ''S'', plan = ''free''\<rparr>" and ?L = "\<lparr>requests = 100, windowMs = 3600000\<rparr>"
  have req: "req_user free_req = Some ?u" "req_apiKey free_req = Some ''key-1''"
    by (simp_all add: free_req_def)
  have L: "limits_for (plan ?u) = Own ?L" by (simp add: limits_for_free)
  obtain out r' where r: "rateLimitMiddleware (Some full_store) 5 free_req = (out, r')"
    by (cases "rateLimitMiddleware (Some full_store) 5 free_req")
  have out: "out = RateLimitExceeded \<lparr>limit = 100, remaining = 0, resetTime = 3600000\<rparr>"
    using r full_store_denied by simp
  show ?thesis
    using C3_increment_only_when_allowed[OF req L r] out r by simp
qed

text \<open>
  Against claim C3 as stated: the free-plan subject with 100 requests counted in the
  window is denied with 429, and the counter read after the denial is still 100, not 101.
\<close>

theorem C3_counterexample:
  "status_code (fst (rateLimitMiddleware (Some full_store) 5 free_req)) = Some 429
   \<and> redis_get full_store 5 (RateLimitKey ''S'' (Num 0)) = Some 100
   \<and> (case snd (rateLimitMiddleware (Some full_store) 5 free_req) of
        None \<Rightarrow> False
      | Some s' \<Rightarrow> redis_get s' 5 (RateLimitKey ''S'' (Num 0)) = Some 100)"
  by (simp add: full_store_denied) (simp add: full_store_def redis_get_def live_def)

subsection \<open>Plans that are not in the table\<close>

text \<open>
  A plan string that is neither one of the five plans nor the name of a member inherited
  from \<^verbatim>\<open>Object.prototype\<close> gets the free plan's limits. A missing plan is such a
  string: used as a property key, \<^verbatim>\<open>undefined\<close> reads the key \<^verbatim>\<open>"undefined"\<close>.
\<close>

lemma limits_for_fallback:
  assumes "p \<notin> fst ` set RATE_LIMITS" "p \<notin> set object_prototype_names"
  shows "limits_for p = Own \<lparr>requests = 100, windowMs = 3600000\<rparr>"
proof -
  have "map_of RATE_LIMITS p = None" using assms(1) by (simp add: map_of_eq_None_iff)
  then show ?thesis
    using assms(2) by (simp add: limits_for_def js_get_def map_of_RATE_LIMITS_free)
qed

lemma limits_for_constructor: "limits_for ''constructor'' = Inherited"
  by (simp add: limits_for_def js_get_def RATE_LIMITS_def object_prototype_names_def)

lemma middleware_Inherited:
  assumes "req_user req = Some u" "req_apiKey req = Some a" "limits_for (plan u) = Inherited"
  shows "rateLimitMiddleware (Some s) now req =
           (Next None, Some (redis_incr s now (RateLimitKey (uid u) NaN)))"
  using assms by (simp add: rateLimitMiddleware_def)

lemma run_checks_Inherited:
  assumes "req_user req = Some u" "req_apiKey req = Some a" "limits_for (plan u) = Inherited"
  shows "\<exists>s'. run_checks (Some s) req ts = (replicate (length ts) (Next None), Some s')"
proof (induction ts arbitrary: s)
  case Nil
  then show ?case by simp
next
  case (Cons t ts)
  obtain s' where "run_checks (Some (redis_incr s t (RateLimitKey (uid u) NaN))) req ts =
      (replicate (length ts) (Next None), Some s')"
    using Cons.IH by blast
  then show ?case by (simp add: middleware_Inherited[OF assms])
qed

text \<open>
  Claim C10 at the plan string \<^verbatim>\<open>"constructor"\<close>. The lookup finds the inherited
  \<^verbatim>\<open>Object.prototype.constructor\<close>, which is truthy, so the free plan is not
  substituted. The limit and the window size are then \<^verbatim>\<open>undefined\<close>, the comparison
  with the limit is never true, and all of 101 checks at one instant are let through
  (the free plan stops at 100). The status query reports no limit of 100 either.
\<close>

theorem C10_inherited_plan_name:
  "limits_for ''constructor'' = Inherited
   \<and> (\<exists>s'. run_checks (Some Map.empty) proto_req (replicate 101 0) =
              (replicate 101 (Next None), Some s'))
   \<and> getRateLimitStatus (Some Map.empty) 0 ''S'' ''constructor'' = StatusUndefinedLimit"
proof -
  let ?u = "\<lparr>uid = ''S'', plan = ''constructor''\<rparr>"
  have "\<exists>s'. run_checks (Some Map.empty) proto_req (replicate 101 0) =
              (replicate (length (replicate 101 (0::int))) (Next None), Some s')"
    by (rule run_checks_Inherited[of proto_req ?u "''key-1''"])
       (simp_all add: proto_req_def limits_for_constructor)
  then show ?thesis
    by (simp add: limits_for_constructor getRateLimitStatus_def)
qed

section \<open>Properties of the authentication gate\<close>

text \<open>
  Claim C9 as the code has it. The only format check is the prefix. A non-empty header
  that does not start with \<^verbatim>\<open>mf_\<close> is rejected with 401 INVALID_API_KEY_FORMAT and
  no lookup is made. A header that starts with \<^verbatim>\<open>mf_\<close> is never rejected for its
  format, whatever its length and characters: the gate goes on to the cache lookup with
  the digest of the header.
\<close>

theorem C9_prefix_check_only:
  "(h \<noteq> [] \<and> \<not> prefix ''mf_'' h \<longrightarrow>
      authMiddleware env (Some h) = (Rejected 401 INVALID_API_KEY_FORMAT, []))
   \<and> (prefix ''mf_'' h \<longrightarrow>
      fst (authMiddleware env (Some h)) \<noteq> Rejected 401 INVALID_API_KEY_FORMAT
      \<and> hd (snd (authMiddleware env (Some h))) = CacheGet (''apikey:'' @ sha256 env h)
      \<and> snd (authMiddleware env (Some h)) \<noteq> [])"
  by (auto simp: authMiddleware_def Let_def split: option.splits list.splits)

theorem C9_prefix_check_only_witness:
  "authMiddleware empty_env (Some ''sk_live_0123'') = (Rejected 401 INVALID_API_KEY_FORMAT, [])
   \<and> fst (authMiddleware empty_env (Some ''mf_0123'')) \<noteq> Rejected 401 INVALID_API_KEY_FORMAT
   \<and> hd (snd (authMiddleware empty_env (Some ''mf_0123''))) = CacheGet ''apikey:digest''"
  using C9_prefix_check_only[of "''sk_live_0123''" empty_env]
    C9_prefix_check_only[of "''mf_0123''" empty_env]
  by (simp add: empty_env_def Let_def)

text \<open>
  Against claim C9 as stated: the header \<^verbatim>\<open>mf_0123\<close> is not of the format (seven
  characters instead of 67), yet the gate looks it up in the cache and in the database
  and answers 401 INVALID_API_KEY, not INVALID_API_KEY_FORMAT.
\<close>

theorem C9_counterexample:
  "\<not> spec_key_format ''mf_0123''
   \<and> authMiddleware empty_env (Some ''mf_0123'') =
       (Rejected 401 INVALID_API_KEY, [CacheGet ''apikey:digest'', DbSelect ''digest''])"
  by (simp add: spec_key_format_def authMiddleware_def empty_env_def Let_def)

section \<open>Properties of the search stage\<close>

subsection \<open>\<open>findIndex\<close> and the indexed filter\<close>

lemma findIndex_ge: "- 1 \<le> findIndex p xs"
  by (induction xs) (simp_all add: Let_def)

lemma findIndex_Cons_Suc:
  "\<not> p x \<Longrightarrow> findIndex p (x # xs) = int (Suc k) \<longleftrightarrow> findIndex p xs = int k"
  by (simp add: Let_def)

lemma findIndex_Cons_0: "\<not> p x \<Longrightarrow> findIndex p (x # xs) \<noteq> 0"
  using findIndex_ge[of p xs] by (simp add: Let_def)


lemma findIndex_eq_iff:
  "findIndex p xs = int i \<longleftrightarrow> i < length xs \<and> p (xs ! i) \<and> (\<forall>j<i. \<not> p (xs ! j))"
proof (induction xs arbitrary: i)
  case Nil
  then show ?case by simp
next
  case (Cons x xs)
  show ?case
  proof (cases "p x")
    case True
    show ?thesis
    proof (cases i)
      case 0
      then show ?thesis using True by simp
    next
      case (Suc k)
      have "\<not> (\<forall>j<Suc k. \<not> p ((x # xs) ! j))" using True by auto
      then show ?thesis using True Suc by simp
    qed
  next
    case False
    show ?thesis
    proof (cases i)
      case 0
      then show ?thesis using False findIndex_Cons_0[of p x xs] by simp
    next
      case (Suc k)
      have "findIndex p (x # xs) = int (Suc k) \<longleftrightarrow> findIndex p xs = int k"
        using False by (rule findIndex_Cons_Suc)
      also have "\<dots> \<longleftrightarrow> k < length xs \<and> p (xs ! k) \<and> (\<forall>j<k. \<not> p (xs ! j))"
        by (rule Cons.IH)
      also have "\<dots> \<longleftrightarrow> Suc k < length (x # xs) \<and> p ((x # xs) ! Suc k)
                        \<and> (\<forall>j<Suc k. \<not> p ((x # xs) ! j))"
        using False by (auto simp: less_Suc_eq_0_disj)
      finally show ?thesis using Suc by simp
    qed
  qed
qed

lemma zip_upt_nth: "zip [0..<length xs] xs = map (\<lambda>i. (i, xs ! i)) [0..<length xs]"
  by (rule nth_equalityI) simp_all

lemma filter_indexed_nth:
  "filter_indexed f arr = map (nth arr) (filter (\<lambda>i. f (arr ! i) i arr) [0..<length arr])"
  by (simp add: filter_indexed_def zip_upt_nth filter_map comp_def)

subsection \<open>Removing duplicates keeps the first copy of every identifier\<close>

lemma removeDuplicates_nth:
  "removeDuplicates xs = map (nth xs) (filter (first_at xs) [0..<length xs])"
proof -
  have "filter (\<lambda>i. findIndex (\<lambda>r. yt_id r = yt_id (xs ! i)) xs = int i) [0..<length xs]
      = filter (first_at xs) [0..<length xs]"
  proof (rule filter_cong[OF refl])
    fix i assume "i \<in> set [0..<length xs]"
    then have "i < length xs" by simp
    then show "(findIndex (\<lambda>r. yt_id r = yt_id (xs ! i)) xs = int i) = first_at xs i"
      unfolding findIndex_eq_iff first_at_def by simp
  qed
  then show ?thesis by (simp add: removeDuplicates_def filter_indexed_nth)
qed

lemma removeDuplicates_set:
  "set (removeDuplicates xs) = {xs ! i | i. i < length xs \<and> first_at xs i}"
  unfolding removeDuplicates_nth by auto

lemma removeDuplicates_distinct: "distinct (map yt_id (removeDuplicates xs))"
proof -
  have "inj_on (\<lambda>i. yt_id (xs ! i)) (set (filter (first_at xs) [0..<length xs]))"
  proof (rule inj_onI)
    fix i k
    assume i: "i \<in> set (filter (first_at xs) [0..<length xs])"
      and k: "k \<in> set (filter (first_at xs) [0..<length xs])"
      and eq: "yt_id (xs ! i) = yt_id (xs ! k)"
    have fi: "first_at xs i" and fk: "first_at xs k" using i k by simp_all
    show "i = k"
    proof (rule ccontr)
      assume "i \<noteq> k"
      then consider "i < k" | "k < i" by linarith
      then show False
      proof cases
        case 1
        then show False using fk eq unfolding first_at_def by blast
      next
        case 2
        then show False using fi eq unfolding first_at_def by metis
      qed
    qed
  qed
  then have "distinct (map (\<lambda>i. yt_id (xs ! i)) (filter (first_at xs) [0..<length xs]))"
    by (simp add: distinct_map)
  then show ?thesis by (simp add: removeDuplicates_nth comp_def)
qed


lemma removeDuplicates_subset: "set (removeDuplicates xs) \<subseteq> set xs"
  unfolding removeDuplicates_set by auto

lemma removeDuplicates_ids: "set (map yt_id (removeDuplicates xs)) = set (map yt_id xs)"
proof
  show "set (map yt_id (removeDuplicates xs)) \<subseteq> set (map yt_id xs)"
    using removeDuplicates_subset[of xs] by auto
  show "set (map yt_id xs) \<subseteq> set (map yt_id (removeDuplicates xs))"
  proof
    fix v assume "v \<in> set (map yt_id xs)"
    then obtain k where k: "k < length xs" "yt_id (xs ! k) = v"
      by (auto simp: in_set_conv_nth)
    define i where "i = (LEAST i. i < length xs \<and> yt_id (xs ! i) = v)"
    have i: "i < length xs \<and> yt_id (xs ! i) = v"
      unfolding i_def by (rule LeastI[of _ k]) (simp add: k)
    have "first_at xs i"
      unfolding first_at_def
    proof (intro allI impI)
      fix j assume ji: "j < i"
      then have "\<not> (j < length xs \<and> yt_id (xs ! j) = v)"
        unfolding i_def by (rule not_less_Least)
      then show "yt_id (xs ! j) \<noteq> yt_id (xs ! i)" using i ji by simp
    qed
    then have "xs ! i \<in> set (removeDuplicates xs)"
      using i unfolding removeDuplicates_set by blast
    then have "yt_id (xs ! i) \<in> yt_id ` set (removeDuplicates xs)" by (rule imageI)
    then show "v \<in> set (map yt_id (removeDuplicates xs))" using i by simp
  qed
qed

lemma removeDuplicates_first:
  assumes "r \<in> set (removeDuplicates xs)"
  shows "List.find (\<lambda>r'. yt_id r' = yt_id r) xs = Some r"
proof -
  obtain i where i: "i < length xs" "first_at xs i" "r = xs ! i"
    using assms unfolding removeDuplicates_set by blast
  have "\<exists>i<length xs. yt_id (xs ! i) = yt_id r \<and> r = xs ! i
          \<and> (\<forall>j<i. \<not> yt_id (xs ! j) = yt_id r)"
    using i unfolding first_at_def by blast
  then show ?thesis unfolding find_Some_iff .
qed

lemma those_map_Some:
  "\<forall>x \<in> set xs. f x = Some (g x) \<Longrightarrow> those (map f xs) = Some (map g xs)"
  by (induction xs) simp_all

lemma those_None_iff: "those xs = None \<longleftrightarrow> None \<in> set xs"
  by (induction xs) (auto split: option.splits)

lemma slice0_nonneg: "0 \<le> n \<Longrightarrow> slice0 n xs = take (nat n) xs"
  by (simp add: slice0_def)

lemma slice0_length: "0 \<le> n \<Longrightarrow> int (length (slice0 n xs)) \<le> n"
  by (simp add: slice0_def)

lemma find_append':
  "List.find P (xs @ ys) = (case List.find P xs of None \<Rightarrow> List.find P ys | Some x \<Rightarrow> Some x)"
  by (induction xs) simp_all

lemma find_concat_first:
  "List.find P (concat xss) = Some r \<Longrightarrow>
     \<exists>i<length xss. List.find P (xss ! i) = Some r \<and> (\<forall>j<i. \<forall>x \<in> set (xss ! j). \<not> P x)"
proof (induction xss)
  case Nil
  then show ?case by simp
next
  case (Cons xs xss)
  show ?case
  proof (cases "List.find P xs")
    case None
    then have none: "\<forall>x \<in> set xs. \<not> P x" by (simp add: find_None_iff)
    from Cons.prems None have "List.find P (concat xss) = Some r" by (simp add: find_append')
    then obtain i where i: "i < length xss" "List.find P (xss ! i) = Some r"
        "\<forall>j<i. \<forall>x \<in> set (xss ! j). \<not> P x"
      using Cons.IH by blast
    have "\<forall>j<Suc i. \<forall>x \<in> set ((xs # xss) ! j). \<not> P x"
      using none i(3) by (auto simp: less_Suc_eq_0_disj)
    then show ?thesis using i(1,2) by (intro exI[of _ "Suc i"]) simp
  next
    case (Some a)
    with Cons.prems have "a = r" by (simp add: find_append')
    then show ?thesis using Some by (intro exI[of _ 0]) simp
  qed
qed

text \<open>
  Claim C7. The searches of the first three terms return the lists \<open>res t\<close>. Then the
  stage's \<open>allResults\<close> is their concatenation in the order of the terms, and its
  \<open>uniqueResults\<close> is \<open>merged\<close> cut by \<^verbatim>\<open>slice(0, maxTracks)\<close>, where
  \<open>merged\<close> has exactly one entry for every identifier that occurs in the results, and
  each entry is the first copy returned by the earliest term that returns its identifier.
  For a non-negative \<open>maxTracks\<close> the cut keeps the first \<open>maxTracks\<close> entries, so
  at most \<open>maxTracks\<close> of them. The results are combined by position in the list of
  terms: the order in which the searches complete is no input of the stage.
\<close>

theorem C7_dedup_by_term_priority:
  assumes terms: "searchTerms q = terms"
    and res: "\<forall>t \<in> set (take 3 terms).
               searchMusic env t (ceil_div maxTracks (int (length terms))) = Some (res t)"
  shows "\<exists>merged. searchStage env q maxTracks =
             Some (concat (map res (take 3 terms)), slice0 maxTracks merged)
       \<and> distinct (map yt_id merged)
       \<and> set (map yt_id merged) = set (map yt_id (concat (map res (take 3 terms))))
       \<and> (\<forall>r \<in> set merged.
            \<exists>i<length (take 3 terms).
               List.find (\<lambda>r'. yt_id r' = yt_id r) (res (take 3 terms ! i)) = Some r
               \<and> (\<forall>j<i. yt_id r \<notin> yt_id ` set (res (take 3 terms ! j))))
       \<and> (0 \<le> maxTracks \<longrightarrow>
            slice0 maxTracks merged = take (nat maxTracks) merged
            \<and> int (length (slice0 maxTracks merged)) \<le> maxTracks)"
proof -
  let ?all = "concat (map res (take 3 terms))"
  let ?merged = "removeDuplicates ?all"
  have stage: "searchStage env q maxTracks = Some (?all, slice0 maxTracks ?merged)"
    using those_map_Some[OF res] by (simp add: searchStage_def terms uniqueResults_def Let_def)
  have first: "\<exists>i<length (take 3 terms).
               List.find (\<lambda>r'. yt_id r' = yt_id r) (res (take 3 terms ! i)) = Some r
               \<and> (\<forall>j<i. yt_id r \<notin> yt_id ` set (res (take 3 terms ! j)))"
    if r: "r \<in> set ?merged" for r
  proof -
    have "List.find (\<lambda>r'. yt_id r' = yt_id r) ?all = Some r"
      using r by (rule removeDuplicates_first)
    then obtain i where i: "i < length (map res (take 3 terms))"
        "List.find (\<lambda>r'. yt_id r' = yt_id r) (map res (take 3 terms) ! i) = Some r"
        "\<forall>j<i. \<forall>x \<in> set (map res (take 3 terms) ! j). \<not> yt_id x = yt_id r"
      using find_concat_first[of "\<lambda>r'. yt_id r' = yt_id r" "map res (take 3 terms)" r] by blast
    have il: "i < length (take 3 terms)" using i(1) by simp
    have "\<forall>j<i. yt_id r \<notin> yt_id ` set (res (take 3 terms ! j))"
    proof (intro allI impI)
      fix j assume "j < i"
      then have "\<forall>x \<in> set (res (take 3 terms ! j)). \<not> yt_id x = yt_id r"
        using i(3) il by simp
      then show "yt_id r \<notin> yt_id ` set (res (take 3 terms ! j))" by auto
    qed
    then show ?thesis using i(2) il by (intro exI[of _ i]) simp
  qed
  show ?thesis
    using stage removeDuplicates_distinct[of ?all] removeDuplicates_ids[of ?all] first
      slice0_nonneg[of maxTracks ?merged] slice0_length[of maxTracks ?merged]
    by (intro exI[of _ ?merged]) blast
qed

lemma ab_search:
  "searchMusic ab_env t 5 = Some (ab_results t)"
  by (simp add: searchMusic_def ab_env_def ab_results_def foo_result_def bar_result_def baz_result_def)

lemma ab_stage:
  "searchStage ab_env ab_query 10 = Some ([foo_result, bar_result, baz_result], [foo_result, baz_result])"
  by (simp add: searchStage_def ab_query_def ceil_div_def ab_search ab_results_def Let_def
     uniqueResults_def removeDuplicates_def filter_indexed_def slice0_def
     foo_result_def bar_result_def baz_result_def)


lemma ab_all: "concat (map ab_results (take 3 [''a'', ''b''])) = [foo_result, bar_result, baz_result]"
  by (simp add: ab_results_def)

lemma ab_ids: "map yt_id [foo_result, bar_result, baz_result] = [''X'', ''X'', ''Y'']"
  by (simp add: foo_result_def bar_result_def baz_result_def)

theorem C7_dedup_by_term_priority_witness:
  "searchStage ab_env ab_query 10 =
     Some ([foo_result, bar_result, baz_result], [foo_result, baz_result])
   \<and> yt_id foo_result = ''X'' \<and> yt_title foo_result = ''Foo''
   \<and> yt_id bar_result = ''X'' \<and> yt_title bar_result = ''Bar''
   \<and> (\<exists>merged. [foo_result, baz_result] = slice0 10 merged
         \<and> distinct (map yt_id merged)
         \<and> set (map yt_id merged) = {''X'', ''Y''})"
proof -
  have t: "searchTerms ab_query = [''a'', ''b'']" by (simp add: ab_query_def)
  have r: "\<forall>t \<in> set (take 3 [''a'', ''b'']).
             searchMusic ab_env t (ceil_div 10 (int (length [''a'', ''b'']))) = Some (ab_results t)"
    by (simp add: ceil_div_def ab_search)
  obtain merged where m:
      "searchStage ab_env ab_query 10 =
         Some (concat (map ab_results (take 3 [''a'', ''b''])), slice0 10 merged)"
      "distinct (map yt_id merged)"
      "set (map yt_id merged) = set (map yt_id (concat (map ab_results (take 3 [''a'', ''b'']))))"
    using C7_dedup_by_term_priority[OF t r] by blast
  have s: "[foo_result, baz_result] = slice0 10 merged"
    using m(1) unfolding ab_stage by simp
  have i: "set (map yt_id merged) = {''X'', ''Y''}"
    unfolding m(3) ab_all ab_ids by simp
  have e: "\<exists>merged. [foo_result, baz_result] = slice0 10 merged
         \<and> distinct (map yt_id merged)
         \<and> set (map yt_id merged) = {''X'', ''Y''}"
    using s m(2) i by blast
  have f: "yt_id foo_result = ''X''" "yt_title foo_result = ''Foo''"
      "yt_id bar_result = ''X''" "yt_title bar_result = ''Bar''"
    by (simp_all add: foo_result_def bar_result_def)
  show ?thesis using ab_stage f e by blast
qed

section \<open>Properties of the confidence score\<close>

lemma calculateConfidenceScore_lower: "0 \<le> calculateConfidenceScore q ts"
proof (cases "ts = []")
  case True
  then show ?thesis by (simp add: calculateConfidenceScore_def)
next
  case False
  have a: "0 \<le> real (length (analyzedTracks ts)) / real (length ts)" by simp
  have b: "\<And>f. 0 \<le> real (length (matchingBPM f (analyzedTracks ts))) / real (length (analyzedTracks ts))"
    by simp
  have c: "0 \<le> min (real (length ts) / 10) (3 / 10)" by simp
  show ?thesis using False a b c
    by (auto simp: calculateConfidenceScore_def Let_def min_def split: option.splits)
qed

lemma calculateConfidenceScore_upper: "calculateConfidenceScore q ts \<le> 1"
  by (simp add: calculateConfidenceScore_def Let_def)

lemma Suc0_le_length: "Suc 0 \<le> length xs \<longleftrightarrow> xs \<noteq> []"
  by (cases xs) simp_all

text \<open>The counts the code computes are the counts of the specification.\<close>

lemma analyzedTracks_count: "length (analyzedTracks ts) = spec_analyzed_count ts"
  by (simp add: analyzedTracks_def spec_analyzed_count_def)

lemma bpm_filter_spec: "bpm_filter q = spec_bpm_filter q"
  by (cases "filters q") (simp_all add: bpm_filter_def spec_bpm_filter_def)

lemma matchingBPM_filter:
  "matchingBPM f analyzed = filter (spec_in_bpm_range f) analyzed"
proof -
  have "(if \<not> truthy_n (bpm t) then False
         else let min' = (case range_min f of None \<Rightarrow> 0 | Some m \<Rightarrow> m);
                  max' = (if truthy_n (range_max f) then the (range_max f) else 200)
              in the (bpm t) \<ge> min' \<and> the (bpm t) \<le> max') = spec_in_bpm_range f t" for t
    by (cases "bpm t"; cases "range_max f")
       (simp_all add: truthy_n_def spec_in_bpm_range_def Let_def)
  then show ?thesis by (simp add: matchingBPM_def)
qed

lemma matchingBPM_count:
  "spec_bpm_filter q = Some f \<Longrightarrow>
   length (matchingBPM f (analyzedTracks ts)) = spec_bpm_match_count q ts"
  by (simp add: matchingBPM_filter analyzedTracks_def spec_bpm_match_count_def)

lemma calculateConfidenceScore_unclamped:
  "calculateConfidenceScore q ts =
     (if length ts = 0 then 0
      else min 1 (0.5 + min (real (length ts) / 10) 0.3
         + (if spec_analyzed_count ts \<ge> 1
            then (real (spec_analyzed_count ts) / real (length ts)) * 0.2 else 0)
         + (if spec_bpm_filter q \<noteq> None \<and> spec_analyzed_count ts \<ge> 1
            then (real (spec_bpm_match_count q ts) / real (spec_analyzed_count ts)) * 0.2
            else 0)))"
proof (cases "spec_bpm_filter q")
  case None
  then show ?thesis
    by (simp add: calculateConfidenceScore_def Let_def bpm_filter_spec spec_bpm_match_count_def
        analyzedTracks_count[symmetric] min.commute Suc0_le_length)
next
  case (Some f)
  note m = matchingBPM_count[OF Some, of ts, symmetric]
  show ?thesis
  proof (cases "matchingBPM f (analyzedTracks ts) = []")
    case True
    then show ?thesis using Some
      by (simp add: calculateConfidenceScore_def Let_def bpm_filter_spec m
          analyzedTracks_count[symmetric] min.commute Suc0_le_length)
  next
    case False
    then show ?thesis using Some
      by (simp add: calculateConfidenceScore_def Let_def bpm_filter_spec m
          analyzedTracks_count[symmetric] min.commute Suc0_le_length)
  qed
qed

lemma calculateConfidenceScore_spec:
  "calculateConfidenceScore q ts =
     spec_confidence (length ts) (spec_analyzed_count ts) (spec_bpm_filter q \<noteq> None)
       (spec_bpm_match_count q ts)"
proof -
  have lo: "0 \<le> calculateConfidenceScore q ts" by (rule calculateConfidenceScore_lower)
  then have "calculateConfidenceScore q ts = max 0 (calculateConfidenceScore q ts)" by simp
  also have "\<dots> = spec_confidence (length ts) (spec_analyzed_count ts)
                     (spec_bpm_filter q \<noteq> None) (spec_bpm_match_count q ts)"
    unfolding spec_confidence_def by (subst calculateConfidenceScore_unclamped) simp
  finally show ?thesis .
qed

text \<open>
  Claim C6. The score is a function of the query and the tracks, and equals the score of
  the specification on the specification's counts: 0 for no track; otherwise 0.5, plus
  the capped yield term, plus the share of analyzed tracks times 0.2 when a track
  completed analysis, plus the share of analyzed tracks that are in the BPM range times
  0.2 when a BPM filter is present and a track completed analysis, clamped to the unit
  interval. It is 0 for the empty list and lies between 0 and 1 for every input. Numbers
  are real numbers here, where the code computes in double precision.
\<close>

theorem C6_confidence_score:
  "calculateConfidenceScore q ts =
     spec_confidence (length ts) (spec_analyzed_count ts) (spec_bpm_filter q \<noteq> None)
       (spec_bpm_match_count q ts)
   \<and> calculateConfidenceScore q [] = 0
   \<and> 0 \<le> calculateConfidenceScore q ts \<and> calculateConfidenceScore q ts \<le> 1"
  using calculateConfidenceScore_spec[of q ts] calculateConfidenceScore_lower[of q ts]
    calculateConfidenceScore_upper[of q ts]
  by (simp add: calculateConfidenceScore_def)

text \<open>
  With the filter 115 to 125 the track at 120 BPM is in range and the track at 140 BPM is
  not: one of the two analyzed tracks matches, the sum of the terms exceeds 1 and the
  score is clamped to 1. Without the filter the same tracks score below 1.
\<close>

theorem C6_confidence_score_witness:
  "calculateConfidenceScore bpm_query three_tracks = 1
   \<and> spec_analyzed_count three_tracks = 2
   \<and> spec_bpm_match_count bpm_query three_tracks = 1
   \<and> calculateConfidenceScore ab_query three_tracks < 1
   \<and> calculateConfidenceScore bpm_query [] = 0"
proof -
  have n: "length three_tracks = 3" by (simp add: three_tracks_def)
  have a: "spec_analyzed_count three_tracks = 2"
    by (simp add: spec_analyzed_count_def three_tracks_def sample_track_def)
  have f: "spec_bpm_filter bpm_query = Some \<lparr>range_min = Some 115, range_max = Some 125\<rparr>"
    by (simp add: spec_bpm_filter_def bpm_query_def ab_query_def no_filters_def)
  have g: "spec_bpm_filter ab_query = None" by (simp add: spec_bpm_filter_def ab_query_def)
  have m: "spec_bpm_match_count bpm_query three_tracks = 1"
    by (simp add: spec_bpm_match_count_def f three_tracks_def sample_track_def
        spec_in_bpm_range_def)
  have m0: "spec_bpm_match_count ab_query three_tracks = 0"
    by (simp add: spec_bpm_match_count_def g)
  have "calculateConfidenceScore bpm_query three_tracks = spec_confidence 3 2 True 1"
    using C6_confidence_score[of bpm_query three_tracks] n a f m by simp
  then have s1: "calculateConfidenceScore bpm_query three_tracks = 1"
    by (simp add: spec_confidence_def)
  have "calculateConfidenceScore ab_query three_tracks = spec_confidence 3 2 False 0"
    using C6_confidence_score[of ab_query three_tracks] n a g m0 by simp
  then have s2: "calculateConfidenceScore ab_query three_tracks < 1"
    by (simp add: spec_confidence_def)
  show ?thesis
    using s1 a m s2 C6_confidence_score[of bpm_query three_tracks] by simp
qed

section \<open>Properties of the track upsert\<close>

subsection \<open>Values that fit their columns\<close>











subsection \<open>The statement\<close>







lemma sample_track_fits: "fits_columns (sample_track ''Foo'' st None)"
  by (simp add: fits_columns_def sample_track_def fits_varchar_def fits_text_def fits_null_def)



text \<open>
  Rounding and overflow at work: 120.456 BPM is stored as 120.46, and an energy level of
  12 does not fit \<^verbatim>\<open>DECIMAL(3,2)\<close>.
\<close>

lemma pg_decimal_rounds: "pg_decimal 6 2 (120456 / 1000) = Some (12046 / 100)"
proof -
  have "\<lfloor>(120461 / 10 :: real)\<rfloor> = 12046" by (rule floor_unique) simp_all
  then show ?thesis by (simp add: pg_decimal_def round_half_away_def Let_def)
qed

lemma pg_decimal_overflow: "pg_decimal 3 2 12 = None"
proof -
  have "\<lfloor>(2401 / 2 :: real)\<rfloor> = 1200" by (rule floor_unique) simp_all
  then show ?thesis by (simp add: pg_decimal_def round_half_away_def Let_def)
qed




section \<open>Properties of the pipeline\<close>

subsection \<open>The metadata cache within one request\<close>

text \<open>
  A completion that parses is cached under the title, and the next extraction for the
  same title is served from the cache, whatever its description.
\<close>

lemma extractMetadata_cached_by_title:
  assumes "redis_up env" "cache' t = None" "llm_metadata_completion env t d1 = Some m"
  shows "extractMetadata env cache' t d1 = Some (m, cache'(t \<mapsto> m))"
    and "extractMetadata env (cache'(t \<mapsto> m)) t d2 = Some (m, cache'(t \<mapsto> m))"
  using assms by (simp_all add: extractMetadata_def)

subsection \<open>When the language model fails\<close>

lemma ceil_div_1: "ceil_div a 1 = a"
  by (simp add: ceil_div_def)

lemma processRequest_fallback:
  assumes "redis_up env" "llm_query_cache env userQuery = None" "llm_completion env userQuery = None"
  shows "processRequest env userQuery = Some (fallbackQuery userQuery)"
  using assms by (simp add: processRequest_def)

lemma searchStage_single:
  "searchTerms q = [t] \<Longrightarrow>
   searchStage env q maxTracks =
     (case searchMusic env t maxTracks of
        None \<Rightarrow> None
      | Some results \<Rightarrow> Some (results, uniqueResults results maxTracks))"
  by (simp add: searchStage_def ceil_div_1 Let_def split: option.splits)

text \<open>
  Claim C2 as the code has it. The request text is not empty, Redis is reachable, the
  query cache has no entry for the text and the call of the language model fails. Then
  \<open>processRequest\<close> returns the fallback query (intent search, the text as the only
  search term, no filters) and \<open>processMusic\<close> goes on with the single search for the
  text. If that search fails the answer is 500. If it succeeds the answer is 200, its
  tracks are those processed from the de-duplicated, truncated results of that search,
  and the three processing steps are all marked completed: no entry records the failure
  of the understanding stage.
\<close>

theorem C2_understanding_fallback:
  assumes body: "body_request body = Some userQuery" "userQuery \<noteq> []"
    and redis: "redis_up env"
    and miss: "llm_query_cache env userQuery = None"
    and fail: "llm_completion env userQuery = None"
  shows "processRequest env userQuery = Some (fallbackQuery userQuery)
     \<and> intent (fallbackQuery userQuery) = Search
     \<and> searchTerms (fallbackQuery userQuery) = [userQuery]
     \<and> filters (fallbackQuery userQuery) = Some no_filters
     \<and> processMusic env database body =
        (let maxTracks = (case body_maxTracks body of None \<Rightarrow> 10 | Some m \<Rightarrow> m);
             analyzeAudio = (case body_analyzeAudio body of None \<Rightarrow> True | Some b \<Rightarrow> b);
             downloadQuality = (case body_downloadQuality body of None \<Rightarrow> Standard | Some q \<Rightarrow> q)
         in case searchMusic env userQuery maxTracks of
              None \<Rightarrow> (ProcessingError, database)
            | Some results \<Rightarrow>
                (case processTracks env analyzeAudio downloadQuality
                        (uniqueResults results maxTracks) (llm_metadata_cache env) []
                        database of
                   (ts, database') \<Rightarrow>
                     (Success \<lparr>tracks = ts, totalFound = length ts,
                               processingSteps = completed_steps,
                               confidence = calculateConfidenceScore (fallbackQuery userQuery) ts\<rparr>,
                      database')))
     \<and> map status completed_steps = [StepCompleted, StepCompleted, StepCompleted]"
proof -
  have pr: "processRequest env userQuery = Some (fallbackQuery userQuery)"
    using redis miss fail by (rule processRequest_fallback)
  have st: "searchTerms (fallbackQuery userQuery) = [userQuery]"
    by (simp add: fallbackQuery_def)
  have pm: "processMusic env database body =
        (let maxTracks = (case body_maxTracks body of None \<Rightarrow> 10 | Some m \<Rightarrow> m);
             analyzeAudio = (case body_analyzeAudio body of None \<Rightarrow> True | Some b \<Rightarrow> b);
             downloadQuality = (case body_downloadQuality body of None \<Rightarrow> Standard | Some q \<Rightarrow> q)
         in case searchMusic env userQuery maxTracks of
              None \<Rightarrow> (ProcessingError, database)
            | Some results \<Rightarrow>
                (case processTracks env analyzeAudio downloadQuality
                        (uniqueResults results maxTracks) (llm_metadata_cache env) []
                        database of
                   (ts, database') \<Rightarrow>
                     (Success \<lparr>tracks = ts, totalFound = length ts,
                               processingSteps = completed_steps,
                               confidence = calculateConfidenceScore (fallbackQuery userQuery) ts\<rparr>,
                      database')))"
    by (simp add: processMusic_def body pr searchStage_single[OF st] Let_def split: option.splits)
  show ?thesis
    using pr pm by (simp add: fallbackQuery_def completed_steps_def)
qed

lemma llm_down_search: "searchMusic llm_down_env ''a'' 10 = Some [foo_result]"
  by (simp add: searchMusic_def llm_down_env_def ab_env_def ab_results_def foo_result_def)

lemma llm_down_cache: "llm_metadata_cache llm_down_env = (\<lambda>t. None)"
  by (simp add: llm_down_env_def ab_env_def)

lemma llm_down_track:
  "processTrack llm_down_env (\<lambda>t. None) True Standard foo_result =
     (Some (sample_track ''Foo'' Failed None), (\<lambda>t. None))"
  by (simp add: processTrack_def llm_down_env_def ab_env_def extractMetadata_def newTrack_def
      foo_result_def applyLlmMetadata_def no_metadata_def truthy_s_def truthy_n_def
      sample_track_def Let_def)

lemma unique_single: "uniqueResults [r] 10 = [r]"
  by (simp add: uniqueResults_def removeDuplicates_def filter_indexed_def slice0_def)

lemma confidence_one_failed:
  "calculateConfidenceScore q [sample_track ''Foo'' Failed None] = 3 / 5"
  by (simp add: calculateConfidenceScore_def analyzedTracks_def sample_track_def Let_def
      split: option.splits)

theorem C2_understanding_fallback_witness:
  "processRequest llm_down_env ''a'' = Some (fallbackQuery ''a'')
   \<and> processMusic llm_down_env None (body_of ''a'') =
       (Success \<lparr>tracks = [sample_track ''Foo'' Failed None], totalFound = 1,
                 processingSteps = completed_steps, confidence = 3 / 5\<rparr>, None)"
proof -
  have h: "body_request (body_of ''a'') = Some ''a''" "''a'' \<noteq> []" "redis_up llm_down_env"
      "llm_query_cache llm_down_env ''a'' = None" "llm_completion llm_down_env ''a'' = None"
    by (simp_all add: body_of_def llm_down_env_def ab_env_def)
  show ?thesis
    using C2_understanding_fallback[OF h, of None]
    by (simp add: body_of_def llm_down_search unique_single llm_down_cache llm_down_track
        saveTrackToDatabase_def confidence_one_failed)
qed

text \<open>
  Against claim C2 as stated: the language model fails for the text \<open>a\<close>; the answer
  is 200, and the processing steps are three entries marked completed, the one of the
  understanding stage among them. None is marked failed.
\<close>

theorem C2_counterexample:
  "llm_completion llm_down_env ''a'' = None
   \<and> http_status (fst (processMusic llm_down_env None (body_of ''a''))) = 200
   \<and> (case fst (processMusic llm_down_env None (body_of ''a'')) of
         Success result \<Rightarrow> map status (processingSteps result) =
                              [StepCompleted, StepCompleted, StepCompleted]
       | _ \<Rightarrow> False)"
proof -
  have pr: "processRequest llm_down_env ''a'' = Some (fallbackQuery ''a'')"
    by (rule processRequest_fallback) (simp_all add: llm_down_env_def ab_env_def)
  have st: "searchTerms (fallbackQuery ''a'') = [''a'']" by (simp add: fallbackQuery_def)
  have "processMusic llm_down_env None (body_of ''a'') =
       (Success \<lparr>tracks = [sample_track ''Foo'' Failed None], totalFound = 1,
                 processingSteps = completed_steps, confidence = 3 / 5\<rparr>, None)"
    by (simp add: processMusic_def body_of_def pr searchStage_single[OF st] llm_down_search
        unique_single llm_down_cache llm_down_track saveTrackToDatabase_def
        confidence_one_failed)
  then show ?thesis
    by (simp add: completed_steps_def llm_down_env_def ab_env_def)
qed

subsection \<open>When a search fails\<close>

lemma concat_map_Nil: "concat (map (\<lambda>t. []) xs) = []"
  by (induction xs) simp_all

lemma uniqueResults_Nil: "uniqueResults [] m = []"
  by (simp add: uniqueResults_def removeDuplicates_def filter_indexed_def slice0_def)

text \<open>
  Claim C5 as the code has it. \<open>searchMusic\<close> rethrows a failed search, \<^verbatim>\<open>Promise.all\<close>
  rejects when one of the searches does, and nothing catches the rejection before the
  outer \<^verbatim>\<open>catch\<close> of \<open>processMusic\<close>. So when a search of one of the first three
  terms fails, and in particular when all of them fail, the answer is 500
  PROCESSING_ERROR and no track is saved. The answer 200 with no track, confidence 0 and
  three completed steps is the answer when every search succeeds with no result.
\<close>

theorem C5_search_failure_is_500:
  assumes body: "body_request body = Some userQuery" "userQuery \<noteq> []"
    and q: "processRequest env userQuery = Some q"
    and m: "maxTracks = (case body_maxTracks body of None \<Rightarrow> 10 | Some m \<Rightarrow> m)"
  shows "((\<exists>t \<in> set (take 3 (searchTerms q)).
             searchMusic env t (ceil_div maxTracks (int (length (searchTerms q)))) = None)
          \<longrightarrow> processMusic env database body = (ProcessingError, database)
              \<and> http_status (fst (processMusic env database body)) = 500)
       \<and> ((\<forall>t \<in> set (take 3 (searchTerms q)).
             searchMusic env t (ceil_div maxTracks (int (length (searchTerms q)))) = Some [])
          \<longrightarrow> processMusic env database body =
                (Success \<lparr>tracks = [], totalFound = 0, processingSteps = completed_steps,
                          confidence = 0\<rparr>, database))"
proof (intro conjI impI)
  let ?f = "\<lambda>t. searchMusic env t (ceil_div maxTracks (int (length (searchTerms q))))"
  assume "\<exists>t \<in> set (take 3 (searchTerms q)). ?f t = None"
  then have "those (map ?f (take 3 (searchTerms q))) = None"
    unfolding those_None_iff by force
  then have "searchStage env q maxTracks = None" by (simp add: searchStage_def)
  then show pm: "processMusic env database body = (ProcessingError, database)"
    by (simp add: processMusic_def body q m[symmetric])
  then show "http_status (fst (processMusic env database body)) = 500" by simp
next
  let ?f = "\<lambda>t. searchMusic env t (ceil_div maxTracks (int (length (searchTerms q))))"
  assume "\<forall>t \<in> set (take 3 (searchTerms q)). ?f t = Some []"
  then have "those (map ?f (take 3 (searchTerms q))) = Some (map (\<lambda>t. []) (take 3 (searchTerms q)))"
    by (rule those_map_Some)
  then have "searchStage env q maxTracks = Some ([], [])"
    by (simp add: searchStage_def uniqueResults_Nil Let_def concat_map_Nil)
  then show "processMusic env database body =
                (Success \<lparr>tracks = [], totalFound = 0, processingSteps = completed_steps,
                          confidence = 0\<rparr>, database)"
    by (simp add: processMusic_def body q m[symmetric] calculateConfidenceScore_def)
qed

theorem C5_search_failure_is_500_witness:
  "processMusic search_down_env None (body_of ''find a and b'') = (ProcessingError, None)
   \<and> processMusic no_results_env None (body_of ''find a and b'') =
        (Success \<lparr>tracks = [], totalFound = 0, processingSteps = completed_steps,
                  confidence = 0\<rparr>, None)"
proof -
  have b: "body_request (body_of ''find a and b'') = Some ''find a and b''" "''find a and b'' \<noteq> []"
    by (simp_all add: body_of_def)
  have m: "(10::int) = (case body_maxTracks (body_of ''find a and b'') of None \<Rightarrow> 10 | Some m \<Rightarrow> m)"
    by (simp add: body_of_def)
  have q1: "processRequest search_down_env ''find a and b'' = Some ab_query"
    by (simp add: processRequest_def search_down_env_def ab_env_def ab_query_def)
  have q2: "processRequest no_results_env ''find a and b'' = Some ab_query"
    by (simp add: processRequest_def no_results_env_def ab_env_def ab_query_def)
  have s1: "\<exists>t \<in> set (take 3 (searchTerms ab_query)).
      searchMusic search_down_env t (ceil_div 10 (int (length (searchTerms ab_query)))) = None"
    by (simp add: ab_query_def searchMusic_def search_down_env_def ab_env_def) blast
  have s2: "\<forall>t \<in> set (take 3 (searchTerms ab_query)).
      searchMusic no_results_env t (ceil_div 10 (int (length (searchTerms ab_query)))) = Some []"
    by (simp add: ab_query_def searchMusic_def no_results_env_def ab_env_def)
  show ?thesis
    using C5_search_failure_is_500[OF b q1 m, of None] C5_search_failure_is_500[OF b q2 m, of None]
      s1 s2 by blast
qed

text \<open>
  Against claim C5 as stated: the language model answers the terms \<open>a\<close> and \<open>b\<close>,
  both searches fail, and the answer is 500, not 200 with an empty track list.
\<close>

theorem C5_counterexample:
  "searchMusic search_down_env ''a'' 5 = None \<and> searchMusic search_down_env ''b'' 5 = None
   \<and> processRequest search_down_env ''find a and b'' = Some ab_query
   \<and> http_status (fst (processMusic search_down_env None (body_of ''find a and b''))) = 500"
proof -
  have q1: "processRequest search_down_env ''find a and b'' = Some ab_query"
    by (simp add: processRequest_def search_down_env_def ab_env_def ab_query_def)
  have s: "searchMusic search_down_env ''a'' 5 = None" "searchMusic search_down_env ''b'' 5 = None"
    by (simp_all add: searchMusic_def search_down_env_def ab_env_def)
  have "searchStage search_down_env ab_query 10 = None"
    by (simp add: searchStage_def ab_query_def ceil_div_def s)
  then have "processMusic search_down_env None (body_of ''find a and b'') = (ProcessingError, None)"
    by (simp add: processMusic_def body_of_def q1)
  then show ?thesis using q1 s by simp
qed

end
